theory Spec2Isabelle
  imports Main "HOL-Library.Word"
begin

unbundle bit_operations_syntax

section \<open>The ownCloud WebDAV backend of csync (modules/csync\_owncloud.c)\<close>

text \<open>
  The module keeps its session, its three caches and the C library's \<open>errno\<close> in global
  variables and reaches the server through the neon HTTP library. The embedding passes
  the globals as one record, and every answer of the library (return code, response
  status, response headers, PROPFIND results, the wall clock) as an explicit argument of
  the operation that asks for it. Calls into the library that a property speaks about
  are written to a log held in the state.

  \<open>errno\<close> is followed as far as the module itself assigns it. The session's cookie,
  which a hook of the module takes from every response, and the bytes of the files are
  left out. Memory is taken to be available: \<open>c_malloc\<close> and the constructors of neon
  return an object. Where the module reads through a \<open>NULL\<close> pointer, reads in front
  of a string or uses a context that was freed, the C program has no defined behaviour;
  an operation that can come to such a point returns an \<open>option\<close>, and \<open>None\<close> is
  that point.
\<close>

subsection \<open>Machine types and constants\<close>

text \<open>\<open>time_t\<close>, \<open>off_t\<close> and \<open>long\<close> are 64-bit; arithmetic on them wraps.\<close>

type_synonym time_t = "64 word"
type_synonym off_t = "64 word"
type_synonym long_t = "64 word"

text \<open>The values of \<open><errno.h>\<close> (Linux numbering).\<close>

definition EPERM :: int where "EPERM = 1"
definition ENOENT :: int where "ENOENT = 2"
definition EIO :: int where "EIO = 5"
definition EBADF :: int where "EBADF = 9"
definition EAGAIN :: int where "EAGAIN = 11"
definition ENOMEM :: int where "ENOMEM = 12"
definition EACCES :: int where "EACCES = 13"
definition EEXIST :: int where "EEXIST = 17"
definition EINVAL :: int where "EINVAL = 22"
definition EFBIG :: int where "EFBIG = 27"
definition ENOSPC :: int where "ENOSPC = 28"

text \<open>
  The module's own error numbers (\<open>ERRNO_*\<close>) are macros of a csync header that is not
  among the source files. Their values are a parameter of the model: a record with one
  field for each macro the module uses.
\<close>

record oc_errnos =
  ERRNO_GENERAL_ERROR :: int
  ERRNO_LOOKUP_ERROR :: int
  ERRNO_USER_UNKNOWN_ON_SERVER :: int
  ERRNO_PROXY_AUTH :: int
  ERRNO_CONNECT :: int
  ERRNO_TIMEOUT :: int
  ERRNO_PRECONDITION :: int
  ERRNO_RETRY :: int
  ERRNO_REDIRECT :: int
  ERRNO_WRONG_CONTENT :: int
  ERRNO_ERROR_STRING :: int
  ERRNO_SERVICE_UNAVAILABLE :: int

text \<open>
  One numbering of the macros, on which the model is run at concrete inputs.
\<close>

definition sample_errnos :: oc_errnos where
  "sample_errnos =
     \<lparr>ERRNO_GENERAL_ERROR = 10000, ERRNO_LOOKUP_ERROR = 10001,
      ERRNO_USER_UNKNOWN_ON_SERVER = 10002, ERRNO_PROXY_AUTH = 10003,
      ERRNO_CONNECT = 10004, ERRNO_TIMEOUT = 10005, ERRNO_PRECONDITION = 10006,
      ERRNO_RETRY = 10007, ERRNO_REDIRECT = 10008, ERRNO_WRONG_CONTENT = 10009,
      ERRNO_ERROR_STRING = 10011, ERRNO_SERVICE_UNAVAILABLE = 10012\<rparr>"

text \<open>The result codes of neon (\<open>ne_session.h\<close>).\<close>

definition NE_OK :: int where "NE_OK = 0"
definition NE_ERROR :: int where "NE_ERROR = 1"
definition NE_LOOKUP :: int where "NE_LOOKUP = 2"
definition NE_AUTH :: int where "NE_AUTH = 3"
definition NE_PROXYAUTH :: int where "NE_PROXYAUTH = 4"
definition NE_CONNECT :: int where "NE_CONNECT = 5"
definition NE_TIMEOUT :: int where "NE_TIMEOUT = 6"
definition NE_FAILED :: int where "NE_FAILED = 7"
definition NE_RETRY :: int where "NE_RETRY = 8"
definition NE_REDIRECT :: int where "NE_REDIRECT = 9"

subsection \<open>The error mapper\<close>

text \<open>
  \<open>set_errno_from_http_errcode\<close> ends in \<open>errno = new_errno\<close>; the function below is
  the value it stores. The cases stand in the order of the \<open>switch\<close>.
\<close>

definition set_errno_from_http_errcode :: "oc_errnos \<Rightarrow> int \<Rightarrow> int" where
  "set_errno_from_http_errcode K err =
     (if err \<in> {200, 201, 202, 203, 204, 205, 207, 304} then 0
      else if err \<in> {401, 402, 407, 405} then EPERM
      else if err \<in> {301, 303, 404, 410} then ENOENT
      else if err \<in> {408, 504} then EAGAIN
      else if err = 423 then EACCES
      else if err \<in> {400, 403, 409, 411, 412, 414, 415, 424, 501} then EINVAL
      else if err = 507 then ENOSPC
      else if err \<in> {206, 300, 302, 305, 306, 307, 406, 416, 417, 422, 500, 502, 505}
        then EIO
      else if err = 503 then ERRNO_SERVICE_UNAVAILABLE K
      else if err = 413 then EFBIG
      else EIO)"

text \<open>
  \<open>strtol(p, &q, 10)\<close>: white space is skipped, a sign is read, then decimal digits.
  The result is the value (held in the range of \<open>long\<close>), the rest of the string at
  \<open>q\<close>, and whether any digit was read (\<open>p \<noteq> q\<close>). With no digit the value is 0 and
  \<open>q\<close> is \<open>p\<close>.
\<close>

definition isspace_c :: "char \<Rightarrow> bool" where
  "isspace_c c = (c \<in> {CHR '' '', CHR 0x09, CHR 0x0A, CHR 0x0B, CHR 0x0C, CHR 0x0D})"

definition isdigit_c :: "char \<Rightarrow> bool" where
  "isdigit_c c = (48 \<le> (of_char c :: nat) \<and> (of_char c :: nat) \<le> 57)"

definition digit_val :: "char \<Rightarrow> int" where
  "digit_val c = of_char c - 48"

definition LONG_MAX :: int where "LONG_MAX = 2 ^ 63 - 1"
definition LONG_MIN :: int where "LONG_MIN = - (2 ^ 63)"

definition strtol :: "string \<Rightarrow> int \<times> string \<times> bool" where
  "strtol p =
     (let s1 = dropWhile isspace_c p;
          neg = (case s1 of c # _ \<Rightarrow> c = CHR ''-'' | [] \<Rightarrow> False);
          s2 = (case s1 of c # cs \<Rightarrow> (if c = CHR ''-'' \<or> c = CHR ''+'' then cs else s1)
                | [] \<Rightarrow> s1);
          ds = takeWhile isdigit_c s2;
          v = foldl (\<lambda>a c. 10 * a + digit_val c) 0 ds
      in if ds = [] then (0, p, False)
         else ((if neg then max LONG_MIN (- v) else min LONG_MAX v),
               dropWhile isdigit_c s2, True))"

text \<open>The conversion of a \<open>long\<close> to \<open>int\<close> keeps the low 32 bits.\<close>

definition int_of_long :: "int \<Rightarrow> int" where
  "int_of_long v = sint (word_of_int v :: 32 word)"

text \<open>
  \<open>http_result_code_from_session\<close> reads the number that stands at the head of neon's
  error text; \<open>set_error_message\<close> has stored the text before (see \<open>set_errno_from_neon_errcode\<close>
  below, which yields both the new \<open>errno\<close> and the new error string).
\<close>

definition http_result_code_from_session :: "oc_errnos \<Rightarrow> string \<Rightarrow> int" where
  "http_result_code_from_session K p =
     (case strtol p of (v, q, converted) \<Rightarrow>
        if \<not> converted then ERRNO_ERROR_STRING K else int_of_long v)"

definition set_errno_from_session :: "oc_errnos \<Rightarrow> string \<Rightarrow> int" where
  "set_errno_from_session K p =
     (let err = http_result_code_from_session K p
      in if err = EIO \<or> err = ERRNO_ERROR_STRING K then err
         else set_errno_from_http_errcode K err)"

text \<open>
  \<open>set_errno_from_neon_errcode\<close> takes neon's result code; \<open>ne_err\<close> is the text
  \<open>ne_get_error\<close> gives for the session. The result is the new \<open>errno\<close> and, where the
  session's text was read, the text that becomes the last error string.
\<close>

definition set_errno_from_neon_errcode ::
  "oc_errnos \<Rightarrow> string \<Rightarrow> int \<Rightarrow> int \<times> string option" where
  "set_errno_from_neon_errcode K ne_err neon_code =
     (if neon_code = NE_OK \<or> neon_code = NE_ERROR
        then (set_errno_from_session K ne_err, Some ne_err)
      else if neon_code = NE_LOOKUP then (ERRNO_LOOKUP_ERROR K, None)
      else if neon_code = NE_AUTH then (ERRNO_USER_UNKNOWN_ON_SERVER K, None)
      else if neon_code = NE_PROXYAUTH then (ERRNO_PROXY_AUTH K, None)
      else if neon_code = NE_CONNECT then (ERRNO_CONNECT K, None)
      else if neon_code = NE_TIMEOUT then (ERRNO_TIMEOUT K, None)
      else if neon_code = NE_FAILED then (ERRNO_PRECONDITION K, None)
      else if neon_code = NE_RETRY then (ERRNO_RETRY K, None)
      else if neon_code = NE_REDIRECT then (ERRNO_REDIRECT K, None)
      else (ERRNO_GENERAL_ERROR K, None))"

subsection \<open>Data\<close>

datatype resource_type = resr_normal | resr_collection | resr_reference | resr_error

text \<open>
  \<open>struct resource\<close>. The \<open>next\<close> pointer is the tail of the list that holds the
  resource. A \<open>char *\<close> that can be \<open>NULL\<close> is a \<open>string option\<close>.
\<close>

record resource =
  res_uri :: "string option"
  res_name :: "string option"
  res_type :: resource_type
  res_size :: off_t
  res_modtime :: time_t
  res_md5 :: "string option"

text \<open>
  \<open>struct listdir_context\<close>. \<open>currResource\<close> points into the list: it is the part of
  the list that starts at the resource it points to (empty for \<open>NULL\<close>).
\<close>

record listdir_context =
  ctx_list :: "resource list"
  currResource :: "resource list"
  target :: "string option"
  result_count :: nat
  ref :: int

text \<open>
  \<open>csync_vio_file_stat_t\<close>, with the fields the module touches. Its declaration, the
  \<open>CSYNC_VIO_FILE_STAT_FIELDS_*\<close> bits and the file types are in a header that is not
  among the source files: the bit mask is the set of its bits, and the file type is one
  of the names the module uses (zero-filled memory reads as unknown).
\<close>

datatype stat_field = FIELDS_TYPE | FIELDS_SIZE | FIELDS_MTIME | FIELDS_PERMISSIONS | FIELDS_MD5

datatype vio_file_type = FILE_TYPE_UNKNOWN | FILE_TYPE_REGULAR | FILE_TYPE_DIRECTORY

record csync_vio_file_stat =
  fs_name :: "string option"
  fs_fields :: "stat_field set"
  fs_type :: vio_file_type
  fs_mtime :: time_t
  fs_size :: off_t
  fs_mode :: int
  fs_md5 :: "string option"

text \<open>\<open>struct transfer_context\<close>; a request of neon is known by a number.\<close>

record transfer_context =
  tc_req :: "nat option"
  tc_fd :: int
  tc_method :: string
  tc_decompress :: bool
  tc_clean_uri :: string

text \<open>\<open>struct dav_session_s\<close>, without the handles of neon and of the host.\<close>

record dav_session_s =
  user :: "string option"
  pwd :: "string option"
  proxy_type :: "string option"
  proxy_host :: "string option"
  proxy_port :: int
  proxy_user :: "string option"
  proxy_pwd :: "string option"
  session_key :: "string option"
  error_string :: "string option"
  read_timeout :: int
  prev_delta :: long_t
  time_delta :: long_t
  time_delta_sum :: long_t
  time_delta_cnt :: long_t

text \<open>What the module asks of neon and of the host, in the order of the calls.\<close>

datatype notify = NOTIFY_START_UPLOAD | NOTIFY_FINISHED_UPLOAD | NOTIFY_START_DOWNLOAD
  | NOTIFY_FINISHED_DOWNLOAD | NOTIFY_ERROR

datatype lib_call =
    Propfind "string option" int
  | Mkcol string
  | Delete "string option"
  | Proppatch "string option" string string string
  | Request_dispatch "nat option"
  | Request_destroy "nat option"
  | Progress_cb string notify int

text \<open>
  The global variables. Listing contexts live in \<open>heap\<close>, since the listing cache and
  the handles given out by \<open>opendir\<close> point to the same context; \<open>next_addr\<close> is the
  address the next allocation returns. \<open>progresscb\<close> tells whether a progress callback
  is registered.
\<close>

record oc_state =
  errno :: int
  dav_session :: dav_session_s
  connected :: bool
  progresscb :: bool
  heap :: "nat \<Rightarrow> listdir_context option"
  next_addr :: nat
  propfind_cache :: "nat option"
  stat_cache :: csync_vio_file_stat
  id_cache_uri :: "string option"
  id_cache_id :: "string option"
  lastDir :: "string option"
  calls :: "lib_call list"

text \<open>
  Pure helpers of the C library, of neon and of csync's own library that are not among
  the source files are parameters of the model. \<open>c_parse_uri_path\<close> is the path that
  \<open>c_parse_uri\<close> extracts (\<open>None\<close> when it fails), \<open>oc_httpdate_parse\<close> the date
  parser of the module, which rests on \<open>sscanf\<close> and \<open>timegm\<close>.
\<close>

record lib =
  c_basename :: "string option \<Rightarrow> string option"
  c_parse_uri_path :: "string \<Rightarrow> string option"
  ne_path_escape :: "string \<Rightarrow> string"
  ne_path_unescape :: "string \<Rightarrow> string option"
  ne_path_compare :: "string \<Rightarrow> string \<Rightarrow> int"
  oc_httpdate_parse :: "string \<Rightarrow> time_t"

text \<open>
  \<open>c_streq\<close> of csync's library: equality of two C strings, false when one is \<open>NULL\<close>.
\<close>

definition c_streq :: "string option \<Rightarrow> string option \<Rightarrow> bool" where
  "c_streq a b = (case (a, b) of (Some x, Some y) \<Rightarrow> x = y | _ \<Rightarrow> False)"

definition set_error_message :: "string option \<Rightarrow> oc_state \<Rightarrow> oc_state" where
  "set_error_message msg s = s\<lparr>dav_session := (dav_session s)\<lparr>error_string := msg\<rparr>\<rparr>"

text \<open>The effect of \<open>set_errno_from_neon_errcode\<close> on the globals.\<close>

definition errno_from_neon :: "oc_errnos \<Rightarrow> string \<Rightarrow> int \<Rightarrow> oc_state \<Rightarrow> oc_state" where
  "errno_from_neon K ne_err neon_code s =
     (case set_errno_from_neon_errcode K ne_err neon_code of
        (e, None) \<Rightarrow> s\<lparr>errno := e\<rparr>
      | (e, Some msg) \<Rightarrow> (set_error_message (Some msg) s)\<lparr>errno := e\<rparr>)"

definition cleanPath :: "lib \<Rightarrow> string \<Rightarrow> string option" where
  "cleanPath L uri =
     (case c_parse_uri_path L uri of None \<Rightarrow> None | Some path \<Rightarrow> Some (ne_path_escape L path))"

subsection \<open>The caches\<close>

text \<open>
  \<open>free_fetchCtx\<close> drops one reference and frees the context with the last one. A
  pointer to a context that was freed before is undefined behaviour: the result is
  \<open>None\<close>.
\<close>

definition free_fetchCtx :: "nat option \<Rightarrow> oc_state \<Rightarrow> oc_state option" where
  "free_fetchCtx p s =
     (case p of
        None \<Rightarrow> Some s
      | Some a \<Rightarrow>
          (case heap s a of
             None \<Rightarrow> None
           | Some ctx \<Rightarrow>
               if ref ctx - 1 > 0
               then Some (s\<lparr>heap := (heap s)(a \<mapsto> ctx\<lparr>ref := ref ctx - 1\<rparr>)\<rparr>)
               else Some (s\<lparr>heap := (heap s)(a := None)\<rparr>)))"

definition clean_caches :: "oc_state \<Rightarrow> oc_state option" where
  "clean_caches s =
     (case free_fetchCtx (propfind_cache s) s of
        None \<Rightarrow> None
      | Some s1 \<Rightarrow>
          Some (s1\<lparr>propfind_cache := None,
                   stat_cache := (stat_cache s1)\<lparr>fs_name := None, fs_md5 := None\<rparr>,
                   id_cache_uri := None,
                   id_cache_id := None\<rparr>))"

subsection \<open>The directory listing\<close>

text \<open>
  One entry of a PROPFIND answer, as neon hands it to the callback \<open>results\<close>: the path
  of the entry and the values of the four properties of \<open>ls_props\<close>, each \<open>NULL\<close> when
  the server gave none.
\<close>

record prop_result =
  pr_path :: string
  pr_getlastmodified :: "string option"
  pr_getcontentlength :: "string option"
  pr_resourcetype :: "string option"
  pr_getetag :: "string option"

text \<open>
  \<open>results\<close> builds a resource in zero-filled memory (\<open>c_malloc\<close>) and puts it in front
  of the list; \<open>new_resource\<close> is the resource it builds. ETag: \<open>len = strlen(md5sum) - 2\<close>,
  and for \<open>len > 0\<close> the \<open>len\<close> characters after the first are copied. Without a target
  nothing is added.
\<close>

definition new_resource :: "lib \<Rightarrow> prop_result \<Rightarrow> resource" where
  "new_resource L r =
     (let path = ne_path_unescape L (pr_path r) in
      \<lparr>res_uri = path,
       res_name = c_basename L path,
       res_type =
         (if pr_getcontentlength r = None \<and>
             (case pr_resourcetype r of None \<Rightarrow> False
              | Some rt \<Rightarrow> take 16 rt = ''<DAV:collection>'')
          then resr_collection else resr_normal),
       res_size =
         (case pr_getcontentlength r of None \<Rightarrow> 0
          | Some clength \<Rightarrow>
              (case strtol clength of (v, p, _) \<Rightarrow> if p \<noteq> [] then 0 else word_of_int v)),
       res_modtime =
         (case pr_getlastmodified r of None \<Rightarrow> 0
          | Some modtime \<Rightarrow> oc_httpdate_parse L modtime),
       res_md5 =
         (case pr_getetag r of None \<Rightarrow> None
          | Some md5sum \<Rightarrow>
              (let len = int (length md5sum) - 2 in
               if len > 0 then Some (take (nat len) (drop 1 md5sum)) else None))\<rparr>)"

definition results :: "lib \<Rightarrow> listdir_context \<Rightarrow> prop_result \<Rightarrow> listdir_context" where
  "results L fetchCtx r =
     (if target fetchCtx = None then fetchCtx
      else fetchCtx\<lparr>ctx_list := new_resource L r # ctx_list fetchCtx,
                    result_count := result_count fetchCtx + 1\<rparr>)"

text \<open>The status of a response (\<open>ne_status\<close>).\<close>

record ne_status =
  klass :: int
  code :: int
  reason_phrase :: "string option"

text \<open>
  What neon and the clock answer during one \<open>fetch_resource_list\<close>: the result of
  \<open>ne_propfind_named\<close>, the entries it passes to \<open>results\<close>, the status of the request,
  the \<open>Content-Type\<close> and \<open>Date\<close> headers, \<open>time(NULL)\<close>, and the session's error text.
\<close>

record propfind_reply =
  pf_ret :: int
  pf_results :: "prop_result list"
  pf_status :: ne_status
  pf_content_type :: "string option"
  pf_date :: "string option"
  pf_now :: time_t
  pf_error :: string

text \<open>
  \<open>fetch_resource_list\<close>, after the cache was missed, in the order of the source: the
  check of the request status, the check of the content type, the server's clock, and the
  exchange of the cache. Each step gets the value of \<open>ret\<close> so far.
\<close>

definition propfind_status ::
  "oc_errnos \<Rightarrow> string \<Rightarrow> propfind_reply \<Rightarrow> listdir_context \<Rightarrow> oc_state
     \<Rightarrow> int \<times> listdir_context \<times> oc_state" where
  "propfind_status K uri rep fetchCtx s =
     (let ret = pf_ret rep; req_status = pf_status rep in
      if ret = NE_OK then
        (let ctx1 = fetchCtx\<lparr>currResource := ctx_list fetchCtx\<rparr> in
         if klass req_status \<noteq> 2 then
           (let s1 = s\<lparr>errno := set_errno_from_http_errcode K (code req_status)\<rparr>;
                s2 = set_error_message (reason_phrase req_status) s1;
                s3 = (if progresscb s2
                      then s2\<lparr>calls := calls s2 @ [Progress_cb uri NOTIFY_ERROR (code req_status)]\<rparr>
                      else s2)
            in (NE_CONNECT, ctx1, s3))
         else (ret, ctx1, s))
      else if ret = NE_ERROR \<and> code req_status = 404 then (ret, fetchCtx, s\<lparr>errno := ENOENT\<rparr>)
      else (ret, fetchCtx, errno_from_neon K (pf_error rep) ret s))"

definition propfind_content_type ::
  "oc_errnos \<Rightarrow> propfind_reply \<Rightarrow> int \<Rightarrow> oc_state \<Rightarrow> int \<times> oc_state" where
  "propfind_content_type K rep ret s =
     (if ret = NE_OK \<and>
         \<not> (pf_content_type rep \<noteq> None \<and>
            c_streq (pf_content_type rep) (Some ''application/xml; charset=utf-8''))
      then (NE_CONNECT,
            set_error_message (Some ''Server error: PROPFIND reply is not XML formatted!'')
              (s\<lparr>errno := ERRNO_WRONG_CONTENT K\<rparr>))
      else (ret, s))"

text \<open>
  The server's clock. A response without a \<open>Date\<close> header makes the module parse a
  \<open>NULL\<close> string: undefined behaviour, \<open>None\<close>. The difference to the last sample is
  only written to the debug log.
\<close>

definition propfind_time_delta ::
  "lib \<Rightarrow> propfind_reply \<Rightarrow> int \<Rightarrow> oc_state \<Rightarrow> oc_state option" where
  "propfind_time_delta L rep ret s =
     (if ret = NE_OK then
        (case pf_date rep of
           None \<Rightarrow> None
         | Some date_header \<Rightarrow>
             (let server_time = oc_httpdate_parse L date_header in
              if server_time \<noteq> 0 then
                (let time_diff = server_time - pf_now rep; d = dav_session s in
                 Some (s\<lparr>dav_session := d\<lparr>time_delta_sum := time_delta_sum d + time_diff,
                                           time_delta_cnt := time_delta_cnt d + 1,
                                           prev_delta := time_delta d,
                                           time_delta := time_diff\<rparr>\<rparr>))
              else Some s))
      else Some s)"

definition fetch_resource_list ::
  "lib \<Rightarrow> oc_errnos \<Rightarrow> string \<Rightarrow> int \<Rightarrow> propfind_reply \<Rightarrow> oc_state
     \<Rightarrow> (nat option \<times> oc_state) option" where
  "fetch_resource_list L K uri depth rep s =
     (let curi = cleanPath L uri;
          hit = (case propfind_cache s of None \<Rightarrow> Some None
                 | Some a \<Rightarrow> (case heap s a of None \<Rightarrow> None
                              | Some c \<Rightarrow> Some (if c_streq curi (target c) then Some (a, c) else None)))
      in case hit of
           None \<Rightarrow> None
         | Some (Some (a, c)) \<Rightarrow> Some (Some a, s\<lparr>heap := (heap s)(a \<mapsto> c\<lparr>ref := ref c + 1\<rparr>)\<rparr>)
         | Some None \<Rightarrow>
             (let ctx0 = \<lparr>ctx_list = [], currResource = [], target = curi,
                          result_count = 0, ref = 1\<rparr>;
                  s0 = s\<lparr>calls := calls s @ [Propfind curi depth]\<rparr>;
                  ctx1 = foldl (results L) ctx0 (pf_results rep)
              in case propfind_status K uri rep ctx1 s0 of (ret1, ctx2, s1) \<Rightarrow>
                 (case propfind_content_type K rep ret1 s1 of (ret2, s2) \<Rightarrow>
                  (case propfind_time_delta L rep ret2 s2 of
                     None \<Rightarrow> None
                   | Some s3 \<Rightarrow>
                       if ret2 \<noteq> NE_OK then Some (None, s3)
                       else
                         (case free_fetchCtx (propfind_cache s3) s3 of
                            None \<Rightarrow> None
                          | Some s4 \<Rightarrow>
                              (let a = next_addr s4 in
                               Some (Some a,
                                 s4\<lparr>heap := (heap s4)(a \<mapsto> ctx2\<lparr>ref := ref ctx2 + 1\<rparr>),
                                    next_addr := a + 1,
                                    propfind_cache := Some a\<rparr>)))))))"

subsection \<open>stat\<close>

text \<open>
  \<open>resourceToFileStat\<close> for a resource that is not \<open>NULL\<close>. The name is copied with
  \<open>c_strdup\<close>, which reads its argument: a resource without a name is undefined
  behaviour (\<open>None\<close>). The mtime is the server's, less the time delta.
\<close>

definition resourceToFileStat :: "oc_state \<Rightarrow> resource \<Rightarrow> csync_vio_file_stat option" where
  "resourceToFileStat s res =
     (case res_name res of
        None \<Rightarrow> None
      | Some n \<Rightarrow>
          Some \<lparr>fs_name = Some n,
                fs_fields =
                  (if res_type res = resr_normal \<or> res_type res = resr_collection
                   then {FIELDS_TYPE} else {})
                  \<union> {FIELDS_MTIME, FIELDS_SIZE, FIELDS_MD5},
                fs_type =
                  (if res_type res = resr_normal then FILE_TYPE_REGULAR
                   else if res_type res = resr_collection then FILE_TYPE_DIRECTORY
                   else FILE_TYPE_UNKNOWN),
                fs_mtime = res_modtime res - time_delta (dav_session s),
                fs_size = res_size res,
                fs_mode = 0,
                fs_md5 = res_md5 res\<rparr>)"

text \<open>The mode bits of \<open><sys/stat.h>\<close>.\<close>

definition S_IFDIR :: int where "S_IFDIR = 16384"
definition S_IFREG :: int where "S_IFREG = 32768"
definition S_IRUSR :: int where "S_IRUSR = 256"
definition S_IWUSR :: int where "S_IWUSR = 128"
definition S_IXUSR :: int where "S_IXUSR = 64"
definition S_IRGRP :: int where "S_IRGRP = 32"
definition S_IXGRP :: int where "S_IXGRP = 8"
definition S_IROTH :: int where "S_IROTH = 4"
definition S_IXOTH :: int where "S_IXOTH = 1"

definition stat_perms :: "vio_file_type \<Rightarrow> int" where
  "stat_perms t =
     (if t = FILE_TYPE_DIRECTORY
      then S_IFDIR OR S_IRUSR OR S_IWUSR OR S_IXUSR OR S_IRGRP OR S_IXGRP OR S_IROTH OR S_IXOTH
      else S_IFREG OR S_IRUSR OR S_IWUSR OR S_IRGRP OR S_IROTH)"

text \<open>
  \<open>fill_stat_cache\<close>: the old name and ETag are freed, then the fields of \<open>lfs\<close> are
  copied; the ETag only when \<open>lfs\<close> has one.
\<close>

definition fill_stat_cache :: "csync_vio_file_stat option \<Rightarrow> oc_state \<Rightarrow> oc_state option" where
  "fill_stat_cache lfs s =
     (let c0 = (stat_cache s)\<lparr>fs_name := None, fs_md5 := None\<rparr> in
      case lfs of
        None \<Rightarrow> Some (s\<lparr>stat_cache := c0\<rparr>)
      | Some l \<Rightarrow>
          (case fs_name l of
             None \<Rightarrow> None
           | Some n \<Rightarrow>
               Some (s\<lparr>stat_cache :=
                        c0\<lparr>fs_name := Some n, fs_mtime := fs_mtime l, fs_fields := fs_fields l,
                           fs_type := fs_type l, fs_size := fs_size l, fs_md5 := fs_md5 l\<rparr>\<rparr>)))"

text \<open>
  The search of \<open>owncloud_stat\<close> through the listing. \<open>len\<close> is the length of the
  resource's URI without its trailing slashes; \<open>decodedUri\<close> is the unescaped target.
  The resource is taken when the first \<open>len\<close> characters agree (\<open>strncmp\<close>) and
  \<open>decodedUri\<close> ends there. A \<open>NULL\<close> URI or a \<open>NULL\<close> \<open>decodedUri\<close> is read:
  undefined behaviour.
\<close>

definition strip_len :: "string \<Rightarrow> nat" where
  "strip_len u = length (dropWhile (\<lambda>c. c = CHR ''/'') (rev u))"

definition char_at :: "string \<Rightarrow> nat \<Rightarrow> char" where
  "char_at str i = (if i < length str then str ! i else CHR 0x00)"

definition uri_matches :: "string \<Rightarrow> string \<Rightarrow> bool" where
  "uri_matches u decodedUri =
     (let len = strip_len u in
      take len u = take len decodedUri \<and> char_at decodedUri len = CHR 0x00)"

fun stat_find :: "string option \<Rightarrow> resource list \<Rightarrow> resource option option" where
  "stat_find decodedUri [] = Some None"
| "stat_find decodedUri (res # rest) =
     (case res_uri res of
        None \<Rightarrow> None
      | Some u \<Rightarrow>
          (case decodedUri of
             None \<Rightarrow> None
           | Some d \<Rightarrow>
               if uri_matches u d then Some (Some res) else stat_find decodedUri rest))"

definition NE_DEPTH_ONE :: int where "NE_DEPTH_ONE = 1"

text \<open>
  \<open>owncloud_stat\<close>. The result is the return value, the caller's buffer and the new
  globals; \<open>rep\<close> is what the server answers if it is asked.
\<close>

definition stat_from_cache :: "csync_vio_file_stat \<Rightarrow> csync_vio_file_stat \<Rightarrow> csync_vio_file_stat" where
  "stat_from_cache c buf =
     (let b = buf\<lparr>fs_fields := fs_fields c, fs_type := fs_type c, fs_mtime := fs_mtime c,
                  fs_size := fs_size c, fs_mode := stat_perms (fs_type c), fs_md5 := None\<rparr>
      in if fs_md5 c \<noteq> None
         then b\<lparr>fs_md5 := fs_md5 c, fs_fields := fs_fields b \<union> {FIELDS_MD5}\<rparr>
         else b)"

definition stat_from_lfs :: "csync_vio_file_stat \<Rightarrow> csync_vio_file_stat \<Rightarrow> csync_vio_file_stat" where
  "stat_from_lfs lfs buf =
     buf\<lparr>fs_fields := fs_fields lfs, fs_type := fs_type lfs, fs_mtime := fs_mtime lfs,
         fs_size := fs_size lfs, fs_mode := stat_perms (fs_type lfs), fs_md5 := fs_md5 lfs\<rparr>"

definition owncloud_stat ::
  "lib \<Rightarrow> oc_errnos \<Rightarrow> string \<Rightarrow> csync_vio_file_stat \<Rightarrow> propfind_reply \<Rightarrow> oc_state
     \<Rightarrow> (int \<times> csync_vio_file_stat \<times> oc_state) option" where
  "owncloud_stat L K uri buf rep s =
     (let s0 = s\<lparr>errno := 0\<rparr>;
          buf0 = buf\<lparr>fs_name := c_basename L (Some uri)\<rparr>
      in if fs_name buf0 = None then Some (-1, buf0, s0\<lparr>errno := ENOMEM\<rparr>)
         else if fs_name (stat_cache s0) \<noteq> None \<and> fs_name buf0 = fs_name (stat_cache s0)
         then Some (0, stat_from_cache (stat_cache s0) buf0, s0)
         else
           (case fetch_resource_list L K uri NE_DEPTH_ONE rep s0 of
              None \<Rightarrow> None
            | Some (None, s1) \<Rightarrow> Some (-1, buf0, s1)
            | Some (Some a, s1) \<Rightarrow>
                (case heap s1 a of
                   None \<Rightarrow> None
                 | Some fetchCtx \<Rightarrow>
                     (case stat_find
                             (case target fetchCtx of None \<Rightarrow> None
                              | Some t \<Rightarrow> ne_path_unescape L t)
                             (ctx_list fetchCtx) of
                        None \<Rightarrow> None
                      | Some None \<Rightarrow>
                          (case free_fetchCtx (Some a) s1 of
                             None \<Rightarrow> None
                           | Some s2 \<Rightarrow> Some (0, buf0, s2))
                      | Some (Some res) \<Rightarrow>
                          (case resourceToFileStat s1 res of
                             None \<Rightarrow> None
                           | Some lfs \<Rightarrow>
                               (case free_fetchCtx (Some a) s1 of
                                  None \<Rightarrow> None
                                | Some s2 \<Rightarrow> Some (0, stat_from_lfs lfs buf0, s2)))))))"

subsection \<open>Directories\<close>

text \<open>
  The loop of \<open>owncloud_readdir\<close>: the cursor moves on, and the first resource whose
  escaped URI differs from the target is returned, with the cursor behind it.
\<close>

fun readdir_next :: "lib \<Rightarrow> string option \<Rightarrow> resource list \<Rightarrow> (resource option \<times> resource list) option" where
  "readdir_next L tgt [] = Some (None, [])"
| "readdir_next L tgt (currRes # rest) =
     (case (tgt, res_uri currRes) of
        (Some t, Some u) \<Rightarrow>
          if ne_path_compare L t (ne_path_escape L u) \<noteq> 0 then Some (Some currRes, rest)
          else readdir_next L tgt rest
      | _ \<Rightarrow> None)"

definition owncloud_readdir ::
  "lib \<Rightarrow> nat \<Rightarrow> oc_state \<Rightarrow> (csync_vio_file_stat option \<times> oc_state) option" where
  "owncloud_readdir L dhandle s =
     (case heap s dhandle of
        None \<Rightarrow> None
      | Some fetchCtx \<Rightarrow>
          (case readdir_next L (target fetchCtx) (currResource fetchCtx) of
             None \<Rightarrow> None
           | Some (None, cur) \<Rightarrow>
               Some (None, s\<lparr>heap := (heap s)(dhandle \<mapsto> fetchCtx\<lparr>currResource := cur\<rparr>)\<rparr>)
           | Some (Some res, cur) \<Rightarrow>
               (let s1 = s\<lparr>heap := (heap s)(dhandle \<mapsto> fetchCtx\<lparr>currResource := cur\<rparr>)\<rparr> in
                case resourceToFileStat s1 res of
                  None \<Rightarrow> None
                | Some lfs \<Rightarrow>
                    (case fill_stat_cache (Some lfs) s1 of
                       None \<Rightarrow> None
                     | Some s2 \<Rightarrow> Some (Some lfs, s2)))))"

definition owncloud_closedir :: "nat \<Rightarrow> oc_state \<Rightarrow> (int \<times> oc_state) option" where
  "owncloud_closedir dhandle s =
     (case free_fetchCtx (Some dhandle) s of None \<Rightarrow> None | Some s1 \<Rightarrow> Some (0, s1))"

subsection \<open>Transfers\<close>

text \<open>
  \<open>install_content_reader\<close> runs when the headers of a GET response are there; \<open>enc\<close>
  and \<open>etag\<close> are the \<open>Content-Encoding\<close> and \<open>ETag\<close> headers. It chooses the body
  reader and stores a copy of the \<open>ETag\<close> header, if it is not empty, in the id cache.
\<close>

definition install_content_reader ::
  "string option \<Rightarrow> string option \<Rightarrow> transfer_context \<Rightarrow> oc_state \<Rightarrow> transfer_context \<times> oc_state" where
  "install_content_reader enc etag writeCtx s =
     (let w = writeCtx\<lparr>tc_decompress := c_streq enc (Some ''gzip'')\<rparr> in
      case etag of
        None \<Rightarrow> (w, s)
      | Some e \<Rightarrow>
          if e \<noteq> [] then (w, s\<lparr>id_cache_uri := Some (tc_clean_uri w), id_cache_id := Some e\<rparr>)
          else (w, s))"

text \<open>
  What the system and neon answer during one \<open>sendfile\<close>: the size \<open>fstat\<close> reports
  for the source (\<open>None\<close> when it fails), the result of \<open>ne_request_dispatch\<close>, the
  status of the request, the \<open>Content-Encoding\<close> and \<open>ETag\<close> headers of the response
  (\<open>None\<close> when no response headers arrived, so that the hook did not run), and the
  session's error text. The bytes that move are not part of the model.
\<close>

record sendfile_reply =
  sf_fstat :: "off_t option"
  sf_neon_stat :: int
  sf_status :: ne_status
  sf_headers :: "(string option \<times> string option) option"
  sf_error :: string

definition notify_progress :: "string \<Rightarrow> notify \<Rightarrow> int \<Rightarrow> oc_state \<Rightarrow> oc_state" where
  "notify_progress uri ev arg s =
     (if progresscb s then s\<lparr>calls := calls s @ [Progress_cb uri ev arg]\<rparr> else s)"

text \<open>The PUT branch of \<open>owncloud_sendfile\<close>, for a context with a request.\<close>

definition sendfile_put ::
  "oc_errnos \<Rightarrow> sendfile_reply \<Rightarrow> transfer_context \<Rightarrow> oc_state \<Rightarrow> int \<times> oc_state" where
  "sendfile_put K rep write_ctx s =
     (let s1 = notify_progress (tc_clean_uri write_ctx) NOTIFY_START_UPLOAD 0 s;
          s2 = s1\<lparr>calls := calls s1 @ [Request_dispatch (tc_req write_ctx)]\<rparr>;
          s3 = errno_from_neon K (sf_error rep) (sf_neon_stat rep) s2;
          status = sf_status rep;
          rc = (if klass status \<noteq> 2
                then (if klass status = 4 then 1 else if klass status = 5 then 1 else 1)
                else 0);
          error_code = (if klass status \<noteq> 2 then code status else 0);
          s4 = (if klass status \<noteq> 2
                then s3\<lparr>errno := set_errno_from_http_errcode K (code status)\<rparr> else s3);
          s5 = notify_progress (tc_clean_uri write_ctx)
                 (if rc \<noteq> NE_OK then NOTIFY_ERROR else NOTIFY_FINISHED_UPLOAD) error_code s4
      in (rc, s5))"

text \<open>The GET branch.\<close>

definition sendfile_get ::
  "oc_errnos \<Rightarrow> sendfile_reply \<Rightarrow> int \<Rightarrow> transfer_context \<Rightarrow> oc_state
     \<Rightarrow> int \<times> transfer_context \<times> oc_state" where
  "sendfile_get K rep fd write_ctx s =
     (let w1 = write_ctx\<lparr>tc_fd := fd\<rparr>;
          s1 = notify_progress (tc_clean_uri w1) NOTIFY_START_DOWNLOAD 0 s;
          s2 = s1\<lparr>calls := calls s1 @ [Request_dispatch (tc_req w1)]\<rparr>;
          (w2, s3) = (case sf_headers rep of
                        None \<Rightarrow> (w1, s2)
                      | Some (enc, etag) \<Rightarrow> install_content_reader enc etag w1 s2);
          neon_stat = sf_neon_stat rep;
          status = sf_status rep;
          rc = (if neon_stat \<noteq> NE_OK then -1
                else if klass status \<noteq> 2
                then (if klass status = 4 then 1 else if klass status = 5 then 1 else 1)
                else 0);
          error_code = (if neon_stat = NE_OK \<and> klass status \<noteq> 2 then code status else 0);
          s4 = (if neon_stat \<noteq> NE_OK then errno_from_neon K (sf_error rep) neon_stat s3
                else if klass status \<noteq> 2
                then s3\<lparr>errno := set_errno_from_http_errcode K (code status)\<rparr>
                else s3);
          s5 = notify_progress (tc_clean_uri w2)
                 (if rc \<noteq> NE_OK then NOTIFY_ERROR else NOTIFY_FINISHED_DOWNLOAD) error_code s4
      in (rc, w2, s5))"

text \<open>
  \<open>owncloud_sendfile\<close>: \<open>src\<close> is the file descriptor in the source handle (\<open>None\<close> for
  a \<open>NULL\<close> handle), \<open>hdl\<close> the transfer context. The result is the return value, the
  transfer context and the globals.
\<close>

definition owncloud_sendfile ::
  "oc_errnos \<Rightarrow> sendfile_reply \<Rightarrow> int option \<Rightarrow> transfer_context option \<Rightarrow> oc_state
     \<Rightarrow> int \<times> transfer_context option \<times> oc_state" where
  "owncloud_sendfile K rep src hdl s =
     (case hdl of
        None \<Rightarrow> (-1, hdl, s\<lparr>errno := EINVAL\<rparr>)
      | Some write_ctx \<Rightarrow>
          (case src of
             None \<Rightarrow> (-1, hdl, s\<lparr>errno := EINVAL\<rparr>)
           | Some fd \<Rightarrow>
               if c_streq (Some (tc_method write_ctx)) (Some ''PUT'') then
                 (if tc_req write_ctx \<noteq> None then
                    (if sf_fstat rep \<noteq> None then
                       (case sendfile_put K rep write_ctx s of (rc, s1) \<Rightarrow> (rc, hdl, s1))
                     else (1, hdl, s))
                  else (1, hdl, s))
               else if c_streq (Some (tc_method write_ctx)) (Some ''GET'') then
                 (case sendfile_get K rep fd write_ctx s of (rc, w, s1) \<Rightarrow> (rc, Some w, s1))
               else (-1, hdl, s)))"

text \<open>\<open>owncloud_close\<close>.\<close>

definition owncloud_close :: "transfer_context option \<Rightarrow> oc_state \<Rightarrow> (int \<times> oc_state) option" where
  "owncloud_close fhandle s =
     (case fhandle of
        None \<Rightarrow> Some (-1, s\<lparr>errno := EBADF\<rparr>)
      | Some writeCtx \<Rightarrow>
          (let ret = 0;
               s1 = s\<lparr>calls := calls s @ [Request_destroy (tc_req writeCtx)]\<rparr>
           in if ret \<noteq> -1 \<and> tc_method writeCtx = ''PUT''
              then (case clean_caches s1 of None \<Rightarrow> None | Some s2 \<Rightarrow> Some (ret, s2))
              else Some (ret, s1)))"

subsection \<open>Connecting\<close>

text \<open>
  What \<open>c_parse_uri\<close>, \<open>ne_sock_init\<close>, \<open>ne_session_create\<close> and \<open>ne_has_support\<close>
  answer during one \<open>dav_connect\<close>. The set-up of the session inside neon (timeout,
  user agent, callbacks, proxy) leaves the globals of the module as they are.
\<close>

record connect_reply =
  cn_parse_rc :: int
  cn_scheme :: string
  cn_user :: "string option"
  cn_pwd :: "string option"
  cn_sock_init :: int
  cn_session_created :: bool
  cn_has_ssl :: bool

definition dav_connect :: "connect_reply \<Rightarrow> oc_state \<Rightarrow> int \<times> oc_state" where
  "dav_connect rep s =
     (if connected s then (0, s)
      else
        (let d0 = (dav_session s)\<lparr>time_delta_sum := 0, time_delta_cnt := 0, prev_delta := 0\<rparr> in
         if cn_parse_rc rep < 0 then (cn_parse_rc rep, s\<lparr>dav_session := d0\<rparr>)
         else
           (let d1 = d0\<lparr>user := cn_user rep, pwd := cn_pwd rep\<rparr>;
                s1 = s\<lparr>dav_session := d1\<rparr>
            in if cn_scheme rep \<noteq> ''owncloud'' \<and> cn_scheme rep \<noteq> ''ownclouds'' then (-1, s1)
               else if cn_sock_init rep < 0 then (-1, s1)
               else if \<not> cn_session_created rep then (-1, s1)
               else
                 (let d2 = (if read_timeout d1 = 0 then d1\<lparr>read_timeout := 30\<rparr> else d1);
                      s2 = s\<lparr>dav_session := d2\<rparr>
                  in if cn_scheme rep = ''ownclouds'' \<and> \<not> cn_has_ssl rep then (-1, s2)
                     else (0, s2\<lparr>connected := True\<rparr>)))))"

subsection \<open>Namespace operations\<close>

text \<open>
  What neon answers to a request that is sent at once (\<open>ne_simple_request\<close>,
  \<open>ne_delete\<close>, \<open>ne_proppatch\<close>): the result code, the status code of the response, and
  the session's error text.
\<close>

record simple_reply =
  sr_rc :: int
  sr_code :: int
  sr_error :: string

text \<open>
  \<open>owncloud_mkdir\<close>. When the session is connected although the path could not be
  cleaned, \<open>strlen\<close> reads \<open>NULL\<close>; for an empty path \<open>path[len-1]\<close> is read in front
  of the string. Both are undefined behaviour (\<open>None\<close>). The module asks the request
  for its status after \<open>ne_simple_request\<close> has returned; \<open>sr_code\<close> is the status
  code of the response to MKCOL.
\<close>

definition owncloud_mkdir ::
  "lib \<Rightarrow> oc_errnos \<Rightarrow> string \<Rightarrow> connect_reply \<Rightarrow> simple_reply \<Rightarrow> oc_state
     \<Rightarrow> (int \<times> oc_state) option" where
  "owncloud_mkdir L K uri crep rep s =
     (let path = cleanPath L uri;
          s1 = (if path = None then s\<lparr>errno := EINVAL\<rparr> else s)
      in case dav_connect crep s1 of (rc, s2) \<Rightarrow>
         (let s3 = (if rc < 0 then s2\<lparr>errno := EINVAL\<rparr> else s2) in
          if rc \<ge> 0 then
            (case path of
               None \<Rightarrow> None
             | Some p \<Rightarrow>
                 if p = [] then None
                 else
                   (let p1 = (if last p \<noteq> CHR ''/'' then p @ ''/'' else p);
                        s4 = s3\<lparr>calls := calls s3 @ [Mkcol p1]\<rparr>;
                        rc1 = sr_rc rep;
                        s5 = (if sr_code rep = 405 then s4\<lparr>errno := EEXIST\<rparr>
                              else errno_from_neon K (sr_error rep) rc1 s4)
                    in Some (if rc1 < 0 \<or> rc1 \<noteq> NE_OK then -1 else 0, s5)))
          else Some (if rc < 0 \<or> rc \<noteq> NE_OK then -1 else 0, s3)))"

text \<open>\<open>owncloud_unlink\<close>.\<close>

definition owncloud_unlink ::
  "lib \<Rightarrow> oc_errnos \<Rightarrow> string \<Rightarrow> connect_reply \<Rightarrow> simple_reply \<Rightarrow> oc_state \<Rightarrow> int \<times> oc_state" where
  "owncloud_unlink L K uri crep rep s =
     (let path = cleanPath L uri;
          (rc0, s0) = (if path = None then (NE_ERROR, s\<lparr>errno := EINVAL\<rparr>) else (NE_OK, s));
          (rc1, s1) = (if rc0 = NE_OK
                       then (case dav_connect crep s0 of (rc, s') \<Rightarrow>
                               (rc, if rc < 0 then s'\<lparr>errno := EINVAL\<rparr> else s'))
                       else (rc0, s0));
          (rc2, s2) = (if rc1 = NE_OK
                       then (sr_rc rep,
                             errno_from_neon K (sr_error rep) (sr_rc rep)
                               (s1\<lparr>calls := calls s1 @ [Delete path]\<rparr>))
                       else (rc1, s1))
      in (0, s2))"

text \<open>\<open>struct timeval\<close>, and \<open>snprintf\<close> with \<open>%ld\<close>.\<close>

record timeval =
  tv_sec :: long_t
  tv_usec :: long_t

fun show_nat :: "nat \<Rightarrow> string" where
  "show_nat n =
     (if n < 10 then [''0123456789'' ! n]
      else show_nat (n div 10) @ [''0123456789'' ! (n mod 10)])"

declare show_nat.simps [simp del]

definition show_ld :: "long_t \<Rightarrow> string" where
  "show_ld v = (if sint v < 0 then CHR ''-'' # show_nat (nat (- sint v)) else show_nat (nat (sint v)))"

text \<open>
  \<open>owncloud_utimes\<close>: \<open>times\<close> points to two values, the access time and the
  modification time, and \<open>modtime = times + 1\<close>. The path is cleaned before \<open>uri\<close> is
  checked; \<open>_cleanPath\<close> of \<open>NULL\<close> is \<open>NULL\<close>.
\<close>

definition owncloud_utimes ::
  "lib \<Rightarrow> oc_errnos \<Rightarrow> string option \<Rightarrow> (timeval \<times> timeval) option \<Rightarrow> simple_reply \<Rightarrow> oc_state
     \<Rightarrow> (int \<times> oc_state) option" where
  "owncloud_utimes L K uri times_arg rep s =
     (case uri of
        None \<Rightarrow> Some (-1, s\<lparr>errno := ENOENT\<rparr>)
      | Some u \<Rightarrow>
          (case times_arg of
             None \<Rightarrow> Some (-1, s\<lparr>errno := EACCES\<rparr>)
           | Some (atime, modtime) \<Rightarrow>
               (let curi = cleanPath L u;
                    newmodtime = tv_sec modtime + time_delta (dav_session s);
                    val = show_ld newmodtime;
                    s1 = s\<lparr>calls := calls s @ [Proppatch curi ''DAV:'' ''lastmodified'' val]\<rparr>;
                    rc = sr_rc rep
                in if rc \<noteq> NE_OK then Some (-1, errno_from_neon K (sr_error rep) rc s1)
                   else (case clean_caches s1 of
                           None \<Rightarrow> None
                         | Some s2 \<Rightarrow> Some (0, s2)))))"

subsection \<open>Concrete inputs\<close>

text \<open>
  The globals when the module is loaded and \<open>vio_module_init\<close> has run: the session is
  zero-filled, nothing is connected, the caches are empty.
\<close>

definition zero_stat :: csync_vio_file_stat where
  "zero_stat = \<lparr>fs_name = None, fs_fields = {}, fs_type = FILE_TYPE_UNKNOWN, fs_mtime = 0,
                 fs_size = 0, fs_mode = 0, fs_md5 = None\<rparr>"

definition init_state :: oc_state where
  "init_state =
     \<lparr>errno = 0,
      dav_session = \<lparr>user = None, pwd = None, proxy_type = None, proxy_host = None,
                     proxy_port = 0, proxy_user = None, proxy_pwd = None, session_key = None,
                     error_string = None, read_timeout = 0, prev_delta = 0, time_delta = 0,
                     time_delta_sum = 0, time_delta_cnt = 0\<rparr>,
      connected = False, progresscb = False, heap = (\<lambda>a. None), next_addr = 0,
      propfind_cache = None, stat_cache = zero_stat, id_cache_uri = None, id_cache_id = None,
      lastDir = None, calls = []\<rparr>"

text \<open>
  A stand-in for the library parameters, on which the model is run at concrete inputs:
  the base name is what follows the last slash, URIs have the form \<open>owncloud://host/path\<close>
  with the path starting at the third slash, escaping changes nothing (the inputs have no
  character that needs it), paths are compared as strings, and two dates are known to the
  date parser.
\<close>

definition sample_basename :: "string option \<Rightarrow> string option" where
  "sample_basename p =
     (case p of None \<Rightarrow> Some ''.''
      | Some x \<Rightarrow> Some (rev (takeWhile (\<lambda>c. c \<noteq> CHR ''/'') (rev x))))"

fun drop_slashes :: "nat \<Rightarrow> string \<Rightarrow> string option" where
  "drop_slashes n [] = None"
| "drop_slashes n (c # cs) =
     (if c = CHR ''/'' then (if n = 0 then Some (c # cs) else drop_slashes (n - 1) cs)
      else drop_slashes n cs)"

definition sample_httpdate :: "string \<Rightarrow> time_t" where
  "sample_httpdate d =
     (if d = ''Sun, 06 Nov 1994 08:49:37 GMT'' then 784111777
      else if d = ''Sun, 06 Nov 1994 08:49:07 GMT'' then 784111747
      else 0)"

definition sample_lib :: lib where
  "sample_lib =
     \<lparr>c_basename = sample_basename,
      c_parse_uri_path = drop_slashes 2,
      ne_path_escape = (\<lambda>p. p),
      ne_path_unescape = (\<lambda>p. Some p),
      ne_path_compare = (\<lambda>a b. if a = b then 0 else 1),
      oc_httpdate_parse = sample_httpdate\<rparr>"

text \<open>
  The caches are in order when the listing cache is empty or points to a context that
  is still allocated. The listing cache answers for a URI when its context has the
  URI's cleaned path as target.
\<close>

definition cache_live :: "oc_state \<Rightarrow> bool" where
  "cache_live s = (case propfind_cache s of None \<Rightarrow> True | Some a \<Rightarrow> heap s a \<noteq> None)"

definition listing_cached :: "lib \<Rightarrow> string \<Rightarrow> oc_state \<Rightarrow> bool" where
  "listing_cached L uri s =
     (case propfind_cache s of
        None \<Rightarrow> False
      | Some a \<Rightarrow>
          (case heap s a of None \<Rightarrow> False | Some c \<Rightarrow> c_streq (cleanPath L uri) (target c)))"

text \<open>
  A session in use: connected, the server 60 seconds ahead, the listing of
  \<open>/sync/\<close> in the listing cache, \<open>a.txt\<close> in the stat cache and the ETag of a download
  in the id cache.
\<close>

definition dq :: char where "dq = CHR 0x22"

definition res_a :: resource where
  "res_a = \<lparr>res_uri = Some ''/sync/a.txt'', res_name = Some ''a.txt'', res_type = resr_normal,
            res_size = 1024, res_modtime = 1000, res_md5 = Some ''abc''\<rparr>"

definition res_dir :: resource where
  "res_dir = \<lparr>res_uri = Some ''/sync/'', res_name = Some ''sync'', res_type = resr_collection,
              res_size = 0, res_modtime = 900, res_md5 = None\<rparr>"

definition sync_listing :: listdir_context where
  "sync_listing = \<lparr>ctx_list = [res_a, res_dir], currResource = [res_a, res_dir],
                    target = Some ''/sync/'', result_count = 2, ref = 1\<rparr>"

definition busy_state :: oc_state where
  "busy_state =
     init_state\<lparr>connected := True,
                dav_session := (dav_session init_state)\<lparr>time_delta := 60, read_timeout := 30\<rparr>,
                heap := (\<lambda>a. if a = 0 then Some sync_listing else None),
                next_addr := 1,
                propfind_cache := Some 0,
                stat_cache := \<lparr>fs_name = Some ''a.txt'',
                                fs_fields = {FIELDS_TYPE, FIELDS_MTIME, FIELDS_SIZE, FIELDS_MD5},
                                fs_type = FILE_TYPE_REGULAR, fs_mtime = 940, fs_size = 1024,
                                fs_mode = 0, fs_md5 = Some ''abc''\<rparr>,
                id_cache_uri := Some ''owncloud://host/sync/b.txt'',
                id_cache_id := Some (dq # ''xyz'' @ [dq])\<rparr>"

text \<open>Answers of the server: to uploads and downloads, to simple requests, to PROPFIND.\<close>

definition storage_full_reply :: sendfile_reply where
  "storage_full_reply =
     \<lparr>sf_fstat = Some 1024, sf_neon_stat = NE_OK,
      sf_status = \<lparr>klass = 5, code = 507, reason_phrase = Some ''Insufficient Storage''\<rparr>,
      sf_headers = Some (None, None), sf_error = ''507 Insufficient Storage''\<rparr>"

definition not_found_reply :: sendfile_reply where
  "not_found_reply =
     \<lparr>sf_fstat = None, sf_neon_stat = NE_OK,
      sf_status = \<lparr>klass = 4, code = 404, reason_phrase = Some ''Not Found''\<rparr>,
      sf_headers = Some (None, None), sf_error = ''404 Not Found''\<rparr>"

definition auth_failed_reply :: sendfile_reply where
  "auth_failed_reply =
     \<lparr>sf_fstat = None, sf_neon_stat = NE_AUTH,
      sf_status = \<lparr>klass = 4, code = 401, reason_phrase = Some ''Unauthorized''\<rparr>,
      sf_headers = Some (None, None),
      sf_error = ''Could not authenticate to server: rejected Basic challenge''\<rparr>"

definition download_reply :: sendfile_reply where
  "download_reply =
     \<lparr>sf_fstat = None, sf_neon_stat = NE_OK,
      sf_status = \<lparr>klass = 2, code = 200, reason_phrase = Some ''OK''\<rparr>,
      sf_headers = Some (Some ''gzip'', Some (dq # ''abc'' @ [dq])), sf_error = []\<rparr>"

definition ok_reply :: simple_reply where
  "ok_reply = \<lparr>sr_rc = NE_OK, sr_code = 207, sr_error = []\<rparr>"

definition exists_reply :: simple_reply where
  "exists_reply = \<lparr>sr_rc = NE_ERROR, sr_code = 405, sr_error = ''405 Method Not Allowed''\<rparr>"

definition locked_reply :: simple_reply where
  "locked_reply = \<lparr>sr_rc = NE_ERROR, sr_code = 423, sr_error = ''423 Locked''\<rparr>"

definition entry_b :: prop_result where
  "entry_b =
     \<lparr>pr_path = ''/sync/b.txt'',
      pr_getlastmodified = Some ''Sun, 06 Nov 1994 08:49:07 GMT'',
      pr_getcontentlength = Some ''3072'',
      pr_resourcetype = None,
      pr_getetag = Some (dq # ''def'' @ [dq])\<rparr>"

definition entry_sync :: prop_result where
  "entry_sync =
     \<lparr>pr_path = ''/sync/'',
      pr_getlastmodified = Some ''Sun, 06 Nov 1994 08:49:07 GMT'',
      pr_getcontentlength = None,
      pr_resourcetype = Some ''<DAV:collection></DAV:collection>'',
      pr_getetag = None\<rparr>"

definition multistatus :: "prop_result list \<Rightarrow> propfind_reply" where
  "multistatus rs =
     \<lparr>pf_ret = NE_OK, pf_results = rs,
      pf_status = \<lparr>klass = 2, code = 207, reason_phrase = Some ''Multi-Status''\<rparr>,
      pf_content_type = Some ''application/xml; charset=utf-8'',
      pf_date = Some ''Sun, 06 Nov 1994 08:49:37 GMT'',
      pf_now = 784111717,
      pf_error = []\<rparr>"

definition connect_ok :: connect_reply where
  "connect_ok = \<lparr>cn_parse_rc = 0, cn_scheme = ''owncloud'', cn_user = Some ''u'',
                 cn_pwd = Some ''p'', cn_sock_init = 0, cn_session_created = True,
                 cn_has_ssl = True\<rparr>"

text \<open>
  A session in which the directory \<open>/sync/\<close> was just opened: its listing, as
  \<open>results\<close> builds it, is in the listing cache, and the handle of \<open>opendir\<close> is address 0.
\<close>

definition listing_b :: listdir_context where
  "listing_b =
     \<lparr>ctx_list = [new_resource sample_lib entry_b, new_resource sample_lib entry_sync],
      currResource = [new_resource sample_lib entry_b, new_resource sample_lib entry_sync],
      target = Some ''/sync/'', result_count = 2, ref = 2\<rparr>"

definition opened_state :: oc_state where
  "opened_state =
     init_state\<lparr>connected := True,
                heap := (\<lambda>a. if a = 0 then Some listing_b else None),
                next_addr := 1,
                propfind_cache := Some 0\<rparr>"

definition put_handle :: transfer_context where
  "put_handle = \<lparr>tc_req = Some 1, tc_fd = 0, tc_method = ''PUT'', tc_decompress = False,
                 tc_clean_uri = ''owncloud://host/sync/a.txt''\<rparr>"

definition get_handle :: transfer_context where
  "get_handle = \<lparr>tc_req = Some 2, tc_fd = -1, tc_method = ''GET'', tc_decompress = False,
                 tc_clean_uri = ''owncloud://host/sync/a.txt''\<rparr>"

section \<open>Properties\<close>

subsection \<open>Frame lemmas\<close>

lemmas errno_defs = EPERM_def ENOENT_def EIO_def EBADF_def EAGAIN_def ENOMEM_def
  EACCES_def EEXIST_def EINVAL_def EFBIG_def ENOSPC_def

lemmas ne_defs = NE_OK_def NE_ERROR_def NE_LOOKUP_def NE_AUTH_def NE_PROXYAUTH_def
  NE_CONNECT_def NE_TIMEOUT_def NE_FAILED_def NE_RETRY_def NE_REDIRECT_def

lemma errno_from_neon_frame:
  "propfind_cache (errno_from_neon K e c s) = propfind_cache s"
  "heap (errno_from_neon K e c s) = heap s"
  "stat_cache (errno_from_neon K e c s) = stat_cache s"
  "id_cache_uri (errno_from_neon K e c s) = id_cache_uri s"
  "id_cache_id (errno_from_neon K e c s) = id_cache_id s"
  "calls (errno_from_neon K e c s) = calls s"
  "progresscb (errno_from_neon K e c s) = progresscb s"
  "errno (errno_from_neon K e c s) = fst (set_errno_from_neon_errcode K e c)"
  by (simp_all add: errno_from_neon_def set_error_message_def split: prod.splits option.splits)

lemma notify_progress_frame:
  "id_cache_uri (notify_progress u ev n s) = id_cache_uri s"
  "id_cache_id (notify_progress u ev n s) = id_cache_id s"
  "progresscb (notify_progress u ev n s) = progresscb s"
  by (simp_all add: notify_progress_def)

lemma dav_connect_frame:
  "calls (snd (dav_connect crep s)) = calls s"
  "errno (snd (dav_connect crep s)) = errno s"
  by (simp_all add: dav_connect_def Let_def)

lemma clean_caches_Some:
  assumes "cache_live s"
  shows "\<exists>s'. clean_caches s = Some s' \<and> propfind_cache s' = None
           \<and> fs_name (stat_cache s') = None \<and> fs_md5 (stat_cache s') = None
           \<and> id_cache_uri s' = None \<and> id_cache_id s' = None
           \<and> calls s' = calls s \<and> errno s' = errno s \<and> dav_session s' = dav_session s"
  using assms
  by (auto simp: clean_caches_def free_fetchCtx_def cache_live_def split: option.splits)

lemma free_fetchCtx_live:
  "heap s a = Some ctx \<Longrightarrow>
     \<exists>s'. free_fetchCtx (Some a) s = Some s' \<and> dav_session s' = dav_session s
        \<and> errno s' = errno s \<and> calls s' = calls s"
  by (simp add: free_fetchCtx_def)

lemma free_fetchCtx_frame:
  "free_fetchCtx p s = Some s' \<Longrightarrow>
     errno s' = errno s \<and> calls s' = calls s \<and> dav_session s' = dav_session s
     \<and> stat_cache s' = stat_cache s \<and> next_addr s' = next_addr s"
  by (auto simp: free_fetchCtx_def split: option.splits if_splits)

lemma free_fetchCtx_cache_live:
  "cache_live s \<Longrightarrow> \<exists>s'. free_fetchCtx (propfind_cache s) s = Some s'"
  by (auto simp: free_fetchCtx_def cache_live_def split: option.splits)

subsection \<open>A PROPFIND that is sent and succeeds\<close>

lemma foldl_results:
  "target c \<noteq> None \<Longrightarrow>
     foldl (results L) c rs =
       c\<lparr>ctx_list := rev (map (new_resource L) rs) @ ctx_list c,
         result_count := result_count c + length rs\<rparr>"
  by (induction rs arbitrary: c) (simp_all add: results_def)

lemma propfind_status_ok:
  "pf_ret rep = NE_OK \<Longrightarrow> klass (pf_status rep) = 2 \<Longrightarrow>
     propfind_status K uri rep c s = (NE_OK, c\<lparr>currResource := ctx_list c\<rparr>, s)"
  by (simp add: propfind_status_def Let_def)

lemma propfind_content_type_ok:
  "pf_content_type rep = Some ''application/xml; charset=utf-8'' \<Longrightarrow>
     propfind_content_type K rep ret s = (ret, s)"
  by (simp add: propfind_content_type_def c_streq_def)

lemma propfind_time_delta_ok:
  "pf_date rep = Some dh \<Longrightarrow>
     \<exists>s'. propfind_time_delta L rep NE_OK s = Some s'
        \<and> errno s' = errno s \<and> calls s' = calls s \<and> heap s' = heap s
        \<and> propfind_cache s' = propfind_cache s \<and> stat_cache s' = stat_cache s
        \<and> next_addr s' = next_addr s
        \<and> time_delta (dav_session s') =
            (if oc_httpdate_parse L dh \<noteq> 0 then oc_httpdate_parse L dh - pf_now rep
             else time_delta (dav_session s))"
  by (simp add: propfind_time_delta_def Let_def)

text \<open>
  When the listing cache does not answer and the server's answer passes the checks, the
  listing holds the resources of the answer, last entry first, and \<open>errno\<close> is untouched.
\<close>

lemma fetch_resource_list_fresh:
  assumes "cache_live s" and "\<not> listing_cached L uri s" and "cleanPath L uri = Some t"
    and "pf_ret rep = NE_OK" and "klass (pf_status rep) = 2"
    and "pf_content_type rep = Some ''application/xml; charset=utf-8''"
    and "pf_date rep = Some dh"
  shows "\<exists>a s1 ctx. fetch_resource_list L K uri depth rep s = Some (Some a, s1)
           \<and> heap s1 a = Some ctx \<and> target ctx = Some t
           \<and> ctx_list ctx = rev (map (new_resource L) (pf_results rep))
           \<and> errno s1 = errno s \<and> calls s1 = calls s @ [Propfind (Some t) depth]
           \<and> stat_cache s1 = stat_cache s
           \<and> time_delta (dav_session s1) =
               (if oc_httpdate_parse L dh \<noteq> 0 then oc_httpdate_parse L dh - pf_now rep
                else time_delta (dav_session s))"
proof -
  let ?ctx0 = "\<lparr>ctx_list = [], currResource = [], target = Some t, result_count = 0, ref = 1\<rparr>"
  let ?s0 = "s\<lparr>calls := calls s @ [Propfind (Some t) depth]\<rparr>"
  let ?ctx1 = "foldl (results L) ?ctx0 (pf_results rep)"
  let ?ctx2 = "?ctx1\<lparr>currResource := ctx_list ?ctx1\<rparr>"
  have hit: "(case propfind_cache s of None \<Rightarrow> Some None
              | Some a \<Rightarrow> (case heap s a of None \<Rightarrow> None
                  | Some c \<Rightarrow> Some (if c_streq (Some t) (target c) then Some (a, c) else None)))
             = Some None"
    using assms(1,2,3)
    by (auto simp: cache_live_def listing_cached_def split: option.splits)
  have c1: "?ctx1 = ?ctx0\<lparr>ctx_list := rev (map (new_resource L) (pf_results rep)),
                           result_count := length (pf_results rep)\<rparr>"
    by (simp add: foldl_results)
  from propfind_time_delta_ok [OF assms(7), of L ?s0] obtain s3 where
    s3: "propfind_time_delta L rep NE_OK ?s0 = Some s3"
      "errno s3 = errno ?s0" "calls s3 = calls ?s0" "heap s3 = heap ?s0"
      "propfind_cache s3 = propfind_cache ?s0" "stat_cache s3 = stat_cache ?s0"
      "time_delta (dav_session s3) =
            (if oc_httpdate_parse L dh \<noteq> 0 then oc_httpdate_parse L dh - pf_now rep
             else time_delta (dav_session ?s0))"
    by blast
  have "cache_live s3"
    using assms(1) s3(4,5) by (auto simp: cache_live_def split: option.splits)
  from free_fetchCtx_cache_live [OF this] obtain s4 where
    s4: "free_fetchCtx (propfind_cache s3) s3 = Some s4" by blast
  note fr = free_fetchCtx_frame [OF s4]
  have "fetch_resource_list L K uri depth rep s =
          Some (Some (next_addr s4),
                s4\<lparr>heap := (heap s4)(next_addr s4 \<mapsto> ?ctx2\<lparr>ref := ref ?ctx2 + 1\<rparr>),
                   next_addr := next_addr s4 + 1,
                   propfind_cache := Some (next_addr s4)\<rparr>)"
    unfolding fetch_resource_list_def
    using assms(3) hit s3(1) s4
    by (simp add: Let_def propfind_status_ok [OF assms(4,5)]
          propfind_content_type_ok [OF assms(6)] NE_OK_def)
  then show ?thesis
    using fr s3 by (simp add: c1)
qed

subsection \<open>The search of stat\<close>

lemma stat_find_none:
  "\<forall>res \<in> set rs. \<exists>u. res_uri res = Some u \<and> \<not> uri_matches u d \<Longrightarrow>
     stat_find (Some d) rs = Some None"
  by (induction rs) auto

lemma stat_find_Some:
  "stat_find dd rs = Some (Some res) \<Longrightarrow>
     res \<in> set rs \<and> (\<exists>u d. res_uri res = Some u \<and> dd = Some d \<and> uri_matches u d)"
  by (induction rs) (auto split: option.splits if_splits)

text \<open>
  For a target without a NUL character, a resource matches when the target is the
  resource's URI without its trailing slashes.
\<close>

lemma take_strip_len:
  "take (strip_len u) u = rev (dropWhile (\<lambda>c. c = CHR ''/'') (rev u))"
proof -
  let ?P = "\<lambda>c. c = CHR ''/''"
  have "rev u = takeWhile ?P (rev u) @ dropWhile ?P (rev u)" by simp
  then have "u = rev (dropWhile ?P (rev u)) @ rev (takeWhile ?P (rev u))"
    by (metis rev_append rev_rev_ident)
  then have "take (length (rev (dropWhile ?P (rev u)))) u = rev (dropWhile ?P (rev u))"
    by (metis append_eq_conv_conj)
  then show ?thesis by (simp add: strip_len_def)
qed

lemma uri_matches_iff:
  assumes "CHR 0x00 \<notin> set d"
  shows "uri_matches u d \<longleftrightarrow> d = rev (dropWhile (\<lambda>c. c = CHR ''/'') (rev u))"
proof -
  have le: "strip_len u \<le> length u"
    by (simp add: strip_len_def) (metis length_dropWhile_le length_rev)
  have nul: "char_at d n = CHR 0x00 \<longleftrightarrow> length d \<le> n" for n
    using assms by (auto simp: char_at_def dest: nth_mem)
  show ?thesis
  proof
    assume "uri_matches u d"
    then have "take (strip_len u) u = take (strip_len u) d" "length d \<le> strip_len u"
      by (simp_all add: uri_matches_def Let_def nul)
    then show "d = rev (dropWhile (\<lambda>c. c = CHR ''/'') (rev u))"
      by (simp add: take_strip_len)
  next
    assume "d = rev (dropWhile (\<lambda>c. c = CHR ''/'') (rev u))"
    then have d: "d = take (strip_len u) u" by (simp add: take_strip_len)
    then have "length d = strip_len u" using le by simp
    with d show "uri_matches u d"
      by (simp add: uri_matches_def Let_def char_at_def)
  qed
qed

lemma owncloud_stat_found:
  assumes "c_basename L (Some uri) = Some n"
    and "fs_name (stat_cache s) \<noteq> Some n"
    and "fetch_resource_list L K uri NE_DEPTH_ONE rep (s\<lparr>errno := 0\<rparr>) = Some (Some a, s1)"
    and "heap s1 a = Some ctx"
    and "stat_find (case target ctx of None \<Rightarrow> None | Some t \<Rightarrow> ne_path_unescape L t)
           (ctx_list ctx) = Some (Some res)"
    and "res_name res \<noteq> None"
  shows "\<exists>buf' s'. owncloud_stat L K uri buf rep s = Some (0, buf', s')
           \<and> fs_mtime buf' = res_modtime res - time_delta (dav_session s1)
           \<and> dav_session s' = dav_session s1"
proof -
  from free_fetchCtx_live [OF assms(4)] obtain s2 where
    f: "free_fetchCtx (Some a) s1 = Some s2" "dav_session s2 = dav_session s1" by blast
  from assms(6) obtain nm where nm: "res_name res = Some nm" by auto
  show ?thesis
    using assms(1-5) f nm
    by (simp add: owncloud_stat_def Let_def resourceToFileStat_def stat_from_lfs_def)
qed

lemma owncloud_stat_not_found:
  assumes "c_basename L (Some uri) = Some n"
    and "fs_name (stat_cache s) \<noteq> Some n"
    and "fetch_resource_list L K uri NE_DEPTH_ONE rep (s\<lparr>errno := 0\<rparr>) = Some (Some a, s1)"
    and "heap s1 a = Some ctx"
    and "stat_find (case target ctx of None \<Rightarrow> None | Some t \<Rightarrow> ne_path_unescape L t)
           (ctx_list ctx) = Some None"
  shows "\<exists>s'. owncloud_stat L K uri buf rep s = Some (0, buf\<lparr>fs_name := Some n\<rparr>, s')
           \<and> errno s' = errno s1 \<and> calls s' = calls s1"
proof -
  from free_fetchCtx_live [OF assms(4)] obtain s2 where
    "free_fetchCtx (Some a) s1 = Some s2" "errno s2 = errno s1" "calls s2 = calls s1" by blast
  with assms show ?thesis
    by (simp add: owncloud_stat_def Let_def)
qed

text \<open>
  The search takes the first resource of the listing that matches: the resources in
  front of it are read and do not match.
\<close>

lemma stat_find_first:
  assumes "\<forall>x \<in> set xs. \<exists>u'. res_uri x = Some u' \<and> \<not> uri_matches u' d"
    and "res_uri res = Some u" and "uri_matches u d"
  shows "stat_find (Some d) (xs @ res # ys) = Some (Some res)"
  using assms by (induction xs) auto

text \<open>
  No resource matches a target that ends in a slash: the slashes at the end of the
  resource's URI are left out of the comparison, and the target has to end where the
  comparison ends.
\<close>

lemma uri_matches_trailing_slash:
  assumes "CHR 0x00 \<notin> set d" and "d \<noteq> []" and "last d = CHR ''/''"
  shows "\<not> uri_matches u d"
proof
  let ?P = "\<lambda>c. c = CHR ''/''"
  assume "uri_matches u d"
  with assms(1) have dd: "d = rev (dropWhile ?P (rev u))"
    by (simp add: uri_matches_iff)
  with assms(2) have ne: "dropWhile ?P (rev u) \<noteq> []" by auto
  then have "\<not> ?P (hd (dropWhile ?P (rev u)))" by (rule hd_dropWhile)
  moreover have "last d = hd (dropWhile ?P (rev u))"
    using dd ne by (simp add: last_rev)
  ultimately show False using assms(3) by simp
qed

text \<open>
  stat after a PROPFIND that is sent and succeeds, when no entry of the answer matches:
  the buffer keeps what the caller put there, and the time delta is the new one.
\<close>

lemma owncloud_stat_fresh_unmatched:
  assumes "c_basename L (Some uri) = Some n"
    and "fs_name (stat_cache s) \<noteq> Some n"
    and "cache_live s" and "\<not> listing_cached L uri s" and "cleanPath L uri = Some t"
    and "ne_path_unescape L t = Some d"
    and "pf_ret rep = NE_OK" and "klass (pf_status rep) = 2"
    and "pf_content_type rep = Some ''application/xml; charset=utf-8''"
    and "pf_date rep = Some dh"
    and "\<forall>r \<in> set (pf_results rep).
           \<exists>u. ne_path_unescape L (pr_path r) = Some u \<and> \<not> uri_matches u d"
  shows "\<exists>s'. owncloud_stat L K uri buf rep s = Some (0, buf\<lparr>fs_name := Some n\<rparr>, s')
           \<and> time_delta (dav_session s') =
               (if oc_httpdate_parse L dh \<noteq> 0 then oc_httpdate_parse L dh - pf_now rep
                else time_delta (dav_session s))"
proof -
  have "cache_live (s\<lparr>errno := 0\<rparr>)" "\<not> listing_cached L uri (s\<lparr>errno := 0\<rparr>)"
    using assms(3,4) by (auto simp: cache_live_def listing_cached_def split: option.splits)
  from fetch_resource_list_fresh [OF this assms(5) assms(7-10), of K NE_DEPTH_ONE]
  obtain a s1 ctx where
    f: "fetch_resource_list L K uri NE_DEPTH_ONE rep (s\<lparr>errno := 0\<rparr>) = Some (Some a, s1)"
      "heap s1 a = Some ctx" "target ctx = Some t"
      "ctx_list ctx = rev (map (new_resource L) (pf_results rep))"
      "time_delta (dav_session s1) =
         (if oc_httpdate_parse L dh \<noteq> 0 then oc_httpdate_parse L dh - pf_now rep
          else time_delta (dav_session (s\<lparr>errno := 0\<rparr>)))"
    by blast
  have "\<forall>res \<in> set (ctx_list ctx). \<exists>u. res_uri res = Some u \<and> \<not> uri_matches u d"
    using assms(11) f(4) by (auto simp: new_resource_def Let_def)
  from stat_find_none [OF this]
  have sf: "stat_find (case target ctx of None \<Rightarrow> None | Some t \<Rightarrow> ne_path_unescape L t)
              (ctx_list ctx) = Some None"
    using f(3) assms(6) by simp
  from free_fetchCtx_live [OF f(2)] obtain s2 where
    "free_fetchCtx (Some a) s1 = Some s2" "dav_session s2 = dav_session s1" by blast
  with assms(1,2) f sf show ?thesis
    by (simp add: owncloud_stat_def Let_def)
qed

subsection \<open>The claims\<close>

text \<open>
  C1 (as amended). For every HTTP status the mapper stores exactly this number: 0 for
  200 to 205, 207 and 304; EPERM for 401, 402, 405, 407; ENOENT for 301, 303, 404, 410;
  EAGAIN for 408 and 504; EACCES for 423; EINVAL for 400, 403, 409, 411, 412, 414, 415,
  424, 501; EFBIG for 413; ENOSPC for 507; the service-unavailable number for 503; and
  EIO for every other status, 206 among them.
\<close>

theorem set_errno_from_http_errcode_table:
  "set_errno_from_http_errcode K s =
     (if (200 \<le> s \<and> s \<le> 205) \<or> s = 207 \<or> s = 304 then 0
      else if s = 401 \<or> s = 402 \<or> s = 405 \<or> s = 407 then EPERM
      else if s = 301 \<or> s = 303 \<or> s = 404 \<or> s = 410 then ENOENT
      else if s = 408 \<or> s = 504 then EAGAIN
      else if s = 423 then EACCES
      else if s = 400 \<or> s = 403 \<or> s = 409 \<or> s = 411 \<or> s = 412 \<or> s = 414 \<or> s = 415
              \<or> s = 424 \<or> s = 501 then EINVAL
      else if s = 413 then EFBIG
      else if s = 507 then ENOSPC
      else if s = 503 then ERRNO_SERVICE_UNAVAILABLE K
      else EIO)"
proof -
  have r: "(200 \<le> s \<and> s \<le> 205) \<longleftrightarrow> s \<in> {200, 201, 202, 203, 204, 205}"
    by auto
  show ?thesis
    unfolding set_errno_from_http_errcode_def r
    by (simp add: errno_defs)
qed

text \<open>
  C1, as the claim states it, asks 0 for every status from 200 to 207. Status 206
  (Partial Content) is listed with the I/O errors.
\<close>

theorem set_errno_from_http_errcode_206:
  "set_errno_from_http_errcode sample_errnos 206 = EIO \<and> EIO \<noteq> 0"
  by (simp add: set_errno_from_http_errcode_def errno_defs)

text \<open>
  C2 (as amended). In sendfile, on the PUT path, whenever the request was dispatched
  (the context holds a request and \<open>fstat\<close> succeeded) and ends with a status whose class
  is not 2, the call returns 1. On the GET path the call returns 1 when the dispatch
  returned \<open>NE_OK\<close> and the class of the status is not 2; when the dispatch returned any
  other code of neon, the call returns -1 whatever the status is.
\<close>

theorem owncloud_sendfile_soft_failure:
  "(tc_method h = ''PUT'' \<and> tc_req h \<noteq> None \<and> sf_fstat rep \<noteq> None
      \<and> klass (sf_status rep) \<noteq> 2
      \<longrightarrow> fst (owncloud_sendfile K rep (Some fd) (Some h) s) = 1)
   \<and> (tc_method h = ''GET'' \<and> sf_neon_stat rep = NE_OK \<and> klass (sf_status rep) \<noteq> 2
      \<longrightarrow> fst (owncloud_sendfile K rep (Some fd) (Some h) s) = 1)
   \<and> (tc_method h = ''GET'' \<and> sf_neon_stat rep \<noteq> NE_OK
      \<longrightarrow> fst (owncloud_sendfile K rep (Some fd) (Some h) s) = -1)"
  by (auto simp: owncloud_sendfile_def sendfile_put_def sendfile_get_def c_streq_def Let_def
           split: prod.splits option.splits)

text \<open>
  The theorem at concrete inputs: an upload answered with 507, a download answered with
  404, and a download whose dispatch ends with \<open>NE_AUTH\<close>.
\<close>

theorem owncloud_sendfile_soft_failure_witness:
  "tc_method put_handle = ''PUT'' \<and> tc_req put_handle \<noteq> None
   \<and> sf_fstat storage_full_reply \<noteq> None \<and> klass (sf_status storage_full_reply) \<noteq> 2
   \<and> fst (owncloud_sendfile sample_errnos storage_full_reply (Some 3) (Some put_handle) busy_state) = 1
   \<and> tc_method get_handle = ''GET'' \<and> sf_neon_stat not_found_reply = NE_OK
   \<and> klass (sf_status not_found_reply) \<noteq> 2
   \<and> fst (owncloud_sendfile sample_errnos not_found_reply (Some 3) (Some get_handle) busy_state) = 1
   \<and> sf_neon_stat auth_failed_reply \<noteq> NE_OK
   \<and> fst (owncloud_sendfile sample_errnos auth_failed_reply (Some 3) (Some get_handle) busy_state) = -1"
  using owncloud_sendfile_soft_failure
          [where h = put_handle and rep = storage_full_reply and K = sample_errnos
             and fd = 3 and s = busy_state]
        owncloud_sendfile_soft_failure
          [where h = get_handle and rep = not_found_reply and K = sample_errnos
             and fd = 3 and s = busy_state]
        owncloud_sendfile_soft_failure
          [where h = get_handle and rep = auth_failed_reply and K = sample_errnos
             and fd = 3 and s = busy_state]
  by (simp add: put_handle_def get_handle_def storage_full_reply_def not_found_reply_def
        auth_failed_reply_def ne_defs)

text \<open>
  C2, as the claim states it, fails on the GET path: the server answers 401 (class 4),
  neon's dispatch ends with \<open>NE_AUTH\<close>, and the call returns -1.
\<close>

theorem owncloud_sendfile_get_401:
  "tc_method get_handle = ''GET'' \<and> klass (sf_status auth_failed_reply) = 4
   \<and> code (sf_status auth_failed_reply) = 401
   \<and> fst (owncloud_sendfile sample_errnos auth_failed_reply (Some 3) (Some get_handle) busy_state) = -1"
  by (simp add: owncloud_sendfile_def sendfile_get_def c_streq_def Let_def get_handle_def
        auth_failed_reply_def ne_defs split: prod.splits)

text \<open>
  C3. unlink returns 0 for every input: whatever the DELETE request gives, whether the
  connection could be made, and also when the URI cannot be parsed.
\<close>

theorem owncloud_unlink_returns_0:
  "fst (owncloud_unlink L K uri crep rep s) = 0"
  by (simp add: owncloud_unlink_def Let_def split: prod.splits)

text \<open>
  C4 (as amended). The content id that readdir puts into the stat cache comes from the
  PROPFIND results without its surrounding double quotes: for a resource built from an
  entry whose ETag is a quoted, non-empty text, the stat cache holds the text between
  the quotes. The GET path stores the ETag header in the ETag cache as it came over the
  wire, quotes included.
\<close>

theorem etag_in_caches:
  "(pr_getetag r = Some (dq # inner @ [dq]) \<and> inner \<noteq> []
      \<and> heap s a = Some ctx \<and> target ctx = Some t
      \<and> currResource ctx = new_resource L r # rest
      \<and> ne_path_unescape L (pr_path r) = Some u
      \<and> ne_path_compare L t (ne_path_escape L u) \<noteq> 0
      \<and> c_basename L (Some u) \<noteq> None
      \<longrightarrow> (\<exists>lfs s'. owncloud_readdir L a s = Some (Some lfs, s')
             \<and> fs_md5 lfs = Some inner \<and> fs_md5 (stat_cache s') = Some inner))
   \<and> (tc_method h = ''GET'' \<and> sf_headers rep = Some (enc, Some e) \<and> e \<noteq> []
      \<longrightarrow> id_cache_id (snd (snd (owncloud_sendfile K rep (Some fd) (Some h) s1))) = Some e)"
proof (intro conjI impI)
  assume a: "pr_getetag r = Some (dq # inner @ [dq]) \<and> inner \<noteq> []
      \<and> heap s a = Some ctx \<and> target ctx = Some t
      \<and> currResource ctx = new_resource L r # rest
      \<and> ne_path_unescape L (pr_path r) = Some u
      \<and> ne_path_compare L t (ne_path_escape L u) \<noteq> 0
      \<and> c_basename L (Some u) \<noteq> None"
  then obtain nm where nm: "c_basename L (Some u) = Some nm" by auto
  from a have md5: "res_md5 (new_resource L r) = Some inner"
    by (simp add: new_resource_def Let_def)
  from a nm have nr: "res_uri (new_resource L r) = Some u" "res_name (new_resource L r) = Some nm"
    by (simp_all add: new_resource_def Let_def)
  from a nr have "readdir_next L (target ctx) (currResource ctx) = Some (Some (new_resource L r), rest)"
    by simp
  with a nr md5 show "\<exists>lfs s'. owncloud_readdir L a s = Some (Some lfs, s')
             \<and> fs_md5 lfs = Some inner \<and> fs_md5 (stat_cache s') = Some inner"
    by (simp add: owncloud_readdir_def Let_def resourceToFileStat_def fill_stat_cache_def)
next
  assume "tc_method h = ''GET'' \<and> sf_headers rep = Some (enc, Some e) \<and> e \<noteq> []"
  then show "id_cache_id (snd (snd (owncloud_sendfile K rep (Some fd) (Some h) s1))) = Some e"
    by (simp add: owncloud_sendfile_def sendfile_get_def install_content_reader_def c_streq_def
          Let_def errno_from_neon_frame notify_progress_frame split: prod.splits)
qed

text \<open>
  The theorem at concrete inputs: readdir on the listing of \<open>/sync/\<close>, whose first
  resource was built from an entry with the ETag \<open>"def"\<close>, and a download answered with
  the ETag \<open>"abc"\<close>.
\<close>

theorem etag_in_caches_witness:
  "pr_getetag entry_b = Some (dq # ''def'' @ [dq]) \<and> ''def'' \<noteq> []
   \<and> heap opened_state 0 = Some listing_b \<and> target listing_b = Some ''/sync/''
   \<and> currResource listing_b = new_resource sample_lib entry_b # [new_resource sample_lib entry_sync]
   \<and> ne_path_unescape sample_lib (pr_path entry_b) = Some ''/sync/b.txt''
   \<and> ne_path_compare sample_lib ''/sync/'' (ne_path_escape sample_lib ''/sync/b.txt'') \<noteq> 0
   \<and> c_basename sample_lib (Some ''/sync/b.txt'') \<noteq> None
   \<and> (\<exists>lfs s'. owncloud_readdir sample_lib 0 opened_state = Some (Some lfs, s')
         \<and> fs_md5 lfs = Some ''def'' \<and> fs_md5 (stat_cache s') = Some ''def'')
   \<and> tc_method get_handle = ''GET''
   \<and> sf_headers download_reply = Some (Some ''gzip'', Some (dq # ''abc'' @ [dq]))
   \<and> dq # ''abc'' @ [dq] \<noteq> []
   \<and> id_cache_id (snd (snd (owncloud_sendfile sample_errnos download_reply (Some 3)
                               (Some get_handle) opened_state)))
       = Some (dq # ''abc'' @ [dq])"
  using etag_in_caches
          [where r = entry_b and inner = "''def''" and s = opened_state and a = 0
             and ctx = listing_b and t = "''/sync/''" and L = sample_lib
             and rest = "[new_resource sample_lib entry_sync]" and u = "''/sync/b.txt''"
             and h = get_handle and rep = download_reply and enc = "Some ''gzip''"
             and e = "dq # ''abc'' @ [dq]" and K = sample_errnos and fd = 3
             and ?s1.0 = opened_state]
  by (simp add: entry_b_def opened_state_def listing_b_def sample_lib_def sample_basename_def
        get_handle_def download_reply_def)

text \<open>
  C4, as the claim states it, fails on the GET path: a download answered with the ETag
  header \<open>"abc"\<close> leaves the header with its quotes in the ETag cache, not \<open>abc\<close>.
\<close>

theorem owncloud_sendfile_etag_raw:
  "id_cache_id (snd (snd (owncloud_sendfile sample_errnos download_reply (Some 3)
                            (Some get_handle) init_state)))
     = Some (CHR 0x22 # ''abc'' @ [CHR 0x22])
   \<and> CHR 0x22 # ''abc'' @ [CHR 0x22] \<noteq> ''abc''"
  by (simp add: owncloud_sendfile_def sendfile_get_def install_content_reader_def c_streq_def
        Let_def notify_progress_def get_handle_def download_reply_def init_state_def dq_def
        ne_defs split: prod.splits)

text \<open>
  C5 (as amended). Let stat of U be answered from a PROPFIND that is sent and succeeds:
  the stat cache does not hold U's base name, the listing cache does not answer, and the
  server's answer passes the checks. Let \<open>r\<close> be an entry of the answer whose path,
  without its trailing slashes, is the decoded target of U, while no entry behind \<open>r\<close>
  in the answer is such an entry (the listing is searched from the last entry of the
  answer to the first). Then the mtime that stat returns is the modification time the
  server reports for \<open>r\<close>, less the time delta that holds after the PROPFIND: mtime +
  time\_delta is the server's modification time.
\<close>

theorem owncloud_stat_mtime:
  assumes "c_basename L (Some uri) = Some n"
    and "fs_name (stat_cache s) \<noteq> Some n"
    and "cache_live s" and "\<not> listing_cached L uri s" and "cleanPath L uri = Some t"
    and "ne_path_unescape L t = Some d"
    and "pf_ret rep = NE_OK" and "klass (pf_status rep) = 2"
    and "pf_content_type rep = Some ''application/xml; charset=utf-8''"
    and "pf_date rep = Some dh"
    and "pf_results rep = before @ r # after"
    and "ne_path_unescape L (pr_path r) = Some u" and "uri_matches u d"
    and "\<forall>x \<in> set after. \<exists>u'. ne_path_unescape L (pr_path x) = Some u' \<and> \<not> uri_matches u' d"
    and "pr_getlastmodified r = Some m"
    and "c_basename L (Some u) \<noteq> None"
  shows "\<exists>buf' s'. owncloud_stat L K uri buf rep s = Some (0, buf', s')
           \<and> fs_mtime buf' = oc_httpdate_parse L m - time_delta (dav_session s')
           \<and> fs_mtime buf' + time_delta (dav_session s') = oc_httpdate_parse L m
           \<and> time_delta (dav_session s') =
               (if oc_httpdate_parse L dh \<noteq> 0 then oc_httpdate_parse L dh - pf_now rep
                else time_delta (dav_session s))"
proof -
  have "cache_live (s\<lparr>errno := 0\<rparr>)" "\<not> listing_cached L uri (s\<lparr>errno := 0\<rparr>)"
    using assms(3,4) by (auto simp: cache_live_def listing_cached_def split: option.splits)
  from fetch_resource_list_fresh [OF this assms(5) assms(7-10), of K NE_DEPTH_ONE]
  obtain a s1 ctx where
    f: "fetch_resource_list L K uri NE_DEPTH_ONE rep (s\<lparr>errno := 0\<rparr>) = Some (Some a, s1)"
      "heap s1 a = Some ctx" "target ctx = Some t"
      "ctx_list ctx = rev (map (new_resource L) (pf_results rep))"
      "time_delta (dav_session s1) =
         (if oc_httpdate_parse L dh \<noteq> 0 then oc_httpdate_parse L dh - pf_now rep
          else time_delta (dav_session (s\<lparr>errno := 0\<rparr>)))"
    by blast
  have l: "ctx_list ctx = rev (map (new_resource L) after) @ new_resource L r
             # rev (map (new_resource L) before)"
    using f(4) assms(11) by simp
  have front: "\<forall>x \<in> set (rev (map (new_resource L) after)).
                 \<exists>u'. res_uri x = Some u' \<and> \<not> uri_matches u' d"
    using assms(14) by (auto simp: new_resource_def Let_def)
  have ru: "res_uri (new_resource L r) = Some u"
    using assms(12) by (simp add: new_resource_def Let_def)
  have sf: "stat_find (case target ctx of None \<Rightarrow> None | Some t \<Rightarrow> ne_path_unescape L t)
              (ctx_list ctx) = Some (Some (new_resource L r))"
    using stat_find_first [OF front ru assms(13)] f(3) assms(6) l by simp
  have nm: "res_name (new_resource L r) \<noteq> None"
    using assms(12,16) by (simp add: new_resource_def Let_def)
  from owncloud_stat_found [OF assms(1,2) f(1,2) sf nm, of buf]
  obtain buf' s' where
    "owncloud_stat L K uri buf rep s = Some (0, buf', s')"
    "fs_mtime buf' = res_modtime (new_resource L r) - time_delta (dav_session s1)"
    "dav_session s' = dav_session s1"
    by blast
  moreover have "res_modtime (new_resource L r) = oc_httpdate_parse L m"
    using assms(15) by (simp add: new_resource_def Let_def)
  ultimately show ?thesis using f(5) by simp
qed

text \<open>
  The theorem at a concrete input: the server is 60 seconds ahead of the local clock and
  lists \<open>/sync/b.txt\<close>, modified at 784111747 on the server's clock, in front of
  \<open>/sync/\<close>; stat of \<open>/sync/b.txt\<close> reports 60 seconds less.
\<close>

theorem owncloud_stat_mtime_witness:
  "c_basename sample_lib (Some ''owncloud://host/sync/b.txt'') = Some ''b.txt''
   \<and> fs_name (stat_cache busy_state) \<noteq> Some ''b.txt''
   \<and> cache_live busy_state
   \<and> \<not> listing_cached sample_lib ''owncloud://host/sync/b.txt'' busy_state
   \<and> cleanPath sample_lib ''owncloud://host/sync/b.txt'' = Some ''/sync/b.txt''
   \<and> ne_path_unescape sample_lib ''/sync/b.txt'' = Some ''/sync/b.txt''
   \<and> pf_ret (multistatus [entry_b, entry_sync]) = NE_OK
   \<and> klass (pf_status (multistatus [entry_b, entry_sync])) = 2
   \<and> pf_content_type (multistatus [entry_b, entry_sync]) = Some ''application/xml; charset=utf-8''
   \<and> pf_date (multistatus [entry_b, entry_sync]) = Some ''Sun, 06 Nov 1994 08:49:37 GMT''
   \<and> pf_results (multistatus [entry_b, entry_sync]) = [] @ entry_b # [entry_sync]
   \<and> ne_path_unescape sample_lib (pr_path entry_b) = Some ''/sync/b.txt''
   \<and> uri_matches ''/sync/b.txt'' ''/sync/b.txt''
   \<and> (\<exists>u'. ne_path_unescape sample_lib (pr_path entry_sync) = Some u'
             \<and> \<not> uri_matches u' ''/sync/b.txt'')
   \<and> pr_getlastmodified entry_b = Some ''Sun, 06 Nov 1994 08:49:07 GMT''
   \<and> c_basename sample_lib (Some ''/sync/b.txt'') \<noteq> None
   \<and> (\<exists>buf' s'. owncloud_stat sample_lib sample_errnos ''owncloud://host/sync/b.txt'' zero_stat
                    (multistatus [entry_b, entry_sync]) busy_state = Some (0, buf', s')
          \<and> fs_mtime buf' = 784111687 \<and> time_delta (dav_session s') = 60
          \<and> fs_mtime buf' + time_delta (dav_session s') = 784111747)"
proof -
  have h1: "c_basename sample_lib (Some ''owncloud://host/sync/b.txt'') = Some ''b.txt''"
    by (simp add: sample_lib_def sample_basename_def)
  have h2: "fs_name (stat_cache busy_state) \<noteq> Some ''b.txt''"
    by (simp add: busy_state_def)
  have h3: "cache_live busy_state"
    by (simp add: cache_live_def busy_state_def)
  have h5: "cleanPath sample_lib ''owncloud://host/sync/b.txt'' = Some ''/sync/b.txt''"
    by (simp add: cleanPath_def sample_lib_def)
  have h4: "\<not> listing_cached sample_lib ''owncloud://host/sync/b.txt'' busy_state"
    by (simp add: listing_cached_def h5 busy_state_def sync_listing_def c_streq_def)
  have h6: "ne_path_unescape sample_lib ''/sync/b.txt'' = Some ''/sync/b.txt''"
    by (simp add: sample_lib_def)
  have h7: "pf_ret (multistatus [entry_b, entry_sync]) = NE_OK"
    and h8: "klass (pf_status (multistatus [entry_b, entry_sync])) = 2"
    and h9: "pf_content_type (multistatus [entry_b, entry_sync])
               = Some ''application/xml; charset=utf-8''"
    and h10: "pf_date (multistatus [entry_b, entry_sync]) = Some ''Sun, 06 Nov 1994 08:49:37 GMT''"
    and h11: "pf_results (multistatus [entry_b, entry_sync]) = [] @ entry_b # [entry_sync]"
    by (simp_all add: multistatus_def)
  have h12: "ne_path_unescape sample_lib (pr_path entry_b) = Some ''/sync/b.txt''"
    by (simp add: sample_lib_def entry_b_def)
  have h13: "uri_matches ''/sync/b.txt'' ''/sync/b.txt''"
    by (simp add: uri_matches_def strip_len_def char_at_def)
  have m1: "\<exists>u'. ne_path_unescape sample_lib (pr_path entry_sync) = Some u'
              \<and> \<not> uri_matches u' ''/sync/b.txt''"
    by (simp add: sample_lib_def entry_sync_def uri_matches_def strip_len_def char_at_def)
  then have h14: "\<forall>x \<in> set [entry_sync].
               \<exists>u'. ne_path_unescape sample_lib (pr_path x) = Some u'
                 \<and> \<not> uri_matches u' ''/sync/b.txt''"
    by simp
  have h15: "pr_getlastmodified entry_b = Some ''Sun, 06 Nov 1994 08:49:07 GMT''"
    by (simp add: entry_b_def)
  have h16: "c_basename sample_lib (Some ''/sync/b.txt'') \<noteq> None"
    by (simp add: sample_lib_def sample_basename_def)
  from owncloud_stat_mtime [OF h1 h2 h3 h4 h5 h6 h7 h8 h9 h10 h11 h12 h13 h14 h15 h16,
         of sample_errnos zero_stat]
  obtain buf' s' where r:
    "owncloud_stat sample_lib sample_errnos ''owncloud://host/sync/b.txt'' zero_stat
       (multistatus [entry_b, entry_sync]) busy_state = Some (0, buf', s')"
    "fs_mtime buf' = oc_httpdate_parse sample_lib ''Sun, 06 Nov 1994 08:49:07 GMT''
                       - time_delta (dav_session s')"
    "time_delta (dav_session s') =
       (if oc_httpdate_parse sample_lib ''Sun, 06 Nov 1994 08:49:37 GMT'' \<noteq> 0
        then oc_httpdate_parse sample_lib ''Sun, 06 Nov 1994 08:49:37 GMT''
               - pf_now (multistatus [entry_b, entry_sync])
        else time_delta (dav_session busy_state))"
    by blast
  have p: "oc_httpdate_parse sample_lib ''Sun, 06 Nov 1994 08:49:07 GMT'' = 784111747"
    "oc_httpdate_parse sample_lib ''Sun, 06 Nov 1994 08:49:37 GMT'' = 784111777"
    "pf_now (multistatus [entry_b, entry_sync]) = 784111717"
    by (simp_all add: sample_lib_def sample_httpdate_def multistatus_def)
  have td: "time_delta (dav_session s') = 60"
    using r(3) by (simp add: p)
  have mt: "fs_mtime buf' = 784111687"
    using r(2) by (simp add: p td)
  show ?thesis
    using h1 h2 h3 h4 h5 h6 h7 h8 h9 h10 h11 h12 h13 m1 h15 h16 r(1) td mt by auto
qed

text \<open>
  C5, as the claim states it, fails for a URI that ends in a slash. stat of the
  directory \<open>owncloud://host/sync/\<close> sends a PROPFIND that succeeds and lists \<open>/sync/\<close>,
  which the server reports as modified at 784111747; the time delta becomes 60. The
  search matches no entry, stat returns 0, and the mtime of the buffer is the 0 the
  caller put there, with no field marked as set: mtime + time\_delta is 60.
\<close>

theorem owncloud_stat_trailing_slash:
  "owncloud_stat sample_lib sample_errnos ''owncloud://host/sync/'' zero_stat
     (multistatus [entry_sync, entry_b]) init_state \<noteq> None
   \<and> fst (the (owncloud_stat sample_lib sample_errnos ''owncloud://host/sync/'' zero_stat
                 (multistatus [entry_sync, entry_b]) init_state)) = 0
   \<and> fs_mtime (fst (snd (the (owncloud_stat sample_lib sample_errnos ''owncloud://host/sync/''
                 zero_stat (multistatus [entry_sync, entry_b]) init_state)))) = 0
   \<and> fs_fields (fst (snd (the (owncloud_stat sample_lib sample_errnos ''owncloud://host/sync/''
                 zero_stat (multistatus [entry_sync, entry_b]) init_state)))) = {}
   \<and> time_delta (dav_session (snd (snd (the (owncloud_stat sample_lib sample_errnos
                 ''owncloud://host/sync/'' zero_stat (multistatus [entry_sync, entry_b])
                 init_state))))) = 60
   \<and> res_uri (new_resource sample_lib entry_sync) = Some ''/sync/''
   \<and> res_modtime (new_resource sample_lib entry_sync) = 784111747
   \<and> (0 :: time_t) + 60 \<noteq> 784111747"
proof -
  have h1: "c_basename sample_lib (Some ''owncloud://host/sync/'') = Some []"
    by (simp add: sample_lib_def sample_basename_def)
  have h2: "fs_name (stat_cache init_state) \<noteq> Some []"
    by (simp add: init_state_def zero_stat_def)
  have h3: "cache_live init_state"
    by (simp add: cache_live_def init_state_def)
  have h4: "\<not> listing_cached sample_lib ''owncloud://host/sync/'' init_state"
    by (simp add: listing_cached_def init_state_def)
  have h5: "cleanPath sample_lib ''owncloud://host/sync/'' = Some ''/sync/''"
    by (simp add: cleanPath_def sample_lib_def)
  have h6: "ne_path_unescape sample_lib ''/sync/'' = Some ''/sync/''"
    by (simp add: sample_lib_def)
  have h7: "pf_ret (multistatus [entry_sync, entry_b]) = NE_OK"
    and h8: "klass (pf_status (multistatus [entry_sync, entry_b])) = 2"
    and h9: "pf_content_type (multistatus [entry_sync, entry_b])
               = Some ''application/xml; charset=utf-8''"
    and h10: "pf_date (multistatus [entry_sync, entry_b]) = Some ''Sun, 06 Nov 1994 08:49:37 GMT''"
    by (simp_all add: multistatus_def)
  have m1: "\<exists>u. ne_path_unescape sample_lib (pr_path entry_sync) = Some u
              \<and> \<not> uri_matches u ''/sync/''"
    by (simp add: sample_lib_def entry_sync_def uri_matches_def strip_len_def char_at_def)
  have m2: "\<exists>u. ne_path_unescape sample_lib (pr_path entry_b) = Some u
              \<and> \<not> uri_matches u ''/sync/''"
    by (simp add: sample_lib_def entry_b_def uri_matches_def strip_len_def char_at_def)
  have h11: "\<forall>r \<in> set (pf_results (multistatus [entry_sync, entry_b])).
               \<exists>u. ne_path_unescape sample_lib (pr_path r) = Some u \<and> \<not> uri_matches u ''/sync/''"
    using m1 m2 by (simp add: multistatus_def)
  from owncloud_stat_fresh_unmatched [OF h1 h2 h3 h4 h5 h6 h7 h8 h9 h10 h11,
         of sample_errnos zero_stat]
  obtain s' where r:
    "owncloud_stat sample_lib sample_errnos ''owncloud://host/sync/'' zero_stat
       (multistatus [entry_sync, entry_b]) init_state
         = Some (0, zero_stat\<lparr>fs_name := Some []\<rparr>, s')"
    "time_delta (dav_session s') =
       (if oc_httpdate_parse sample_lib ''Sun, 06 Nov 1994 08:49:37 GMT'' \<noteq> 0
        then oc_httpdate_parse sample_lib ''Sun, 06 Nov 1994 08:49:37 GMT''
               - pf_now (multistatus [entry_sync, entry_b])
        else time_delta (dav_session init_state))"
    by blast
  have p: "oc_httpdate_parse sample_lib ''Sun, 06 Nov 1994 08:49:37 GMT'' = 784111777"
    "pf_now (multistatus [entry_sync, entry_b]) = 784111717"
    by (simp_all add: sample_lib_def sample_httpdate_def multistatus_def)
  have td: "time_delta (dav_session s') = 60"
    using r(2) by (simp add: p)
  have e: "res_uri (new_resource sample_lib entry_sync) = Some ''/sync/''"
    "res_modtime (new_resource sample_lib entry_sync) = 784111747"
    by (simp_all add: new_resource_def Let_def sample_lib_def sample_httpdate_def entry_sync_def)
  show ?thesis
    using r(1) td e by (simp add: zero_stat_def)
qed

text \<open>
  C6. utimes (with a URI and times that are not \<open>NULL\<close>) sends one PROPPATCH that sets
  \<open>DAV:lastmodified\<close> to the decimal text of \<open>mtime.tv_sec + time_delta\<close>. When the
  PROPPATCH succeeds, the listing cache, the stat cache and the ETag cache are cleared and
  the call returns 0; when it fails, the call returns -1 and the three caches are as
  before.
\<close>

theorem owncloud_utimes_proppatch:
  "(sr_rc rep = NE_OK \<and> cache_live s \<longrightarrow>
      (\<exists>s'. owncloud_utimes L K (Some u) (Some (at, mt)) rep s = Some (0, s')
         \<and> calls s' = calls s @ [Proppatch (cleanPath L u) ''DAV:'' ''lastmodified''
                                   (show_ld (tv_sec mt + time_delta (dav_session s)))]
         \<and> propfind_cache s' = None
         \<and> fs_name (stat_cache s') = None \<and> fs_md5 (stat_cache s') = None
         \<and> id_cache_uri s' = None \<and> id_cache_id s' = None))
   \<and> (sr_rc rep \<noteq> NE_OK \<longrightarrow>
      (\<exists>s'. owncloud_utimes L K (Some u) (Some (at, mt)) rep s = Some (-1, s')
         \<and> calls s' = calls s @ [Proppatch (cleanPath L u) ''DAV:'' ''lastmodified''
                                   (show_ld (tv_sec mt + time_delta (dav_session s)))]
         \<and> propfind_cache s' = propfind_cache s \<and> heap s' = heap s
         \<and> stat_cache s' = stat_cache s
         \<and> id_cache_uri s' = id_cache_uri s \<and> id_cache_id s' = id_cache_id s))"
proof (intro conjI impI)
  let ?c = "Proppatch (cleanPath L u) ''DAV:'' ''lastmodified''
              (show_ld (tv_sec mt + time_delta (dav_session s)))"
  let ?s1 = "s\<lparr>calls := calls s @ [?c]\<rparr>"
  assume a: "sr_rc rep = NE_OK \<and> cache_live s"
  then have "cache_live ?s1" by (auto simp: cache_live_def split: option.splits)
  from clean_caches_Some [OF this] obtain s' where
    "clean_caches ?s1 = Some s'" "propfind_cache s' = None"
    "fs_name (stat_cache s') = None" "fs_md5 (stat_cache s') = None"
    "id_cache_uri s' = None" "id_cache_id s' = None" "calls s' = calls ?s1"
    by blast
  with a show "\<exists>s'. owncloud_utimes L K (Some u) (Some (at, mt)) rep s = Some (0, s')
         \<and> calls s' = calls s @ [?c]
         \<and> propfind_cache s' = None
         \<and> fs_name (stat_cache s') = None \<and> fs_md5 (stat_cache s') = None
         \<and> id_cache_uri s' = None \<and> id_cache_id s' = None"
    by (simp add: owncloud_utimes_def Let_def)
next
  assume "sr_rc rep \<noteq> NE_OK"
  then show "\<exists>s'. owncloud_utimes L K (Some u) (Some (at, mt)) rep s = Some (-1, s')
         \<and> calls s' = calls s @ [Proppatch (cleanPath L u) ''DAV:'' ''lastmodified''
                                   (show_ld (tv_sec mt + time_delta (dav_session s)))]
         \<and> propfind_cache s' = propfind_cache s \<and> heap s' = heap s
         \<and> stat_cache s' = stat_cache s
         \<and> id_cache_uri s' = id_cache_uri s \<and> id_cache_id s' = id_cache_id s"
    by (simp add: owncloud_utimes_def Let_def errno_from_neon_frame)
qed

text \<open>
  The theorem at concrete inputs: the time delta is 60 and the new mtime 1000, so the
  property is set to \<open>1060\<close>; once the server accepts, once it answers 423.
\<close>

theorem owncloud_utimes_proppatch_witness:
  "sr_rc ok_reply = NE_OK \<and> cache_live busy_state
   \<and> (\<exists>s'. owncloud_utimes sample_lib sample_errnos (Some ''owncloud://host/sync/a.txt'')
              (Some (\<lparr>tv_sec = 1000, tv_usec = 0\<rparr>, \<lparr>tv_sec = 1000, tv_usec = 0\<rparr>))
              ok_reply busy_state = Some (0, s')
         \<and> calls s' = [Proppatch (Some ''/sync/a.txt'') ''DAV:'' ''lastmodified'' ''1060'']
         \<and> propfind_cache s' = None
         \<and> fs_name (stat_cache s') = None \<and> fs_md5 (stat_cache s') = None
         \<and> id_cache_uri s' = None \<and> id_cache_id s' = None)
   \<and> sr_rc locked_reply \<noteq> NE_OK
   \<and> (\<exists>s'. owncloud_utimes sample_lib sample_errnos (Some ''owncloud://host/sync/a.txt'')
              (Some (\<lparr>tv_sec = 1000, tv_usec = 0\<rparr>, \<lparr>tv_sec = 1000, tv_usec = 0\<rparr>))
              locked_reply busy_state = Some (-1, s')
         \<and> calls s' = [Proppatch (Some ''/sync/a.txt'') ''DAV:'' ''lastmodified'' ''1060'']
         \<and> propfind_cache s' = Some 0 \<and> heap s' = heap busy_state
         \<and> stat_cache s' = stat_cache busy_state
         \<and> id_cache_uri s' = id_cache_uri busy_state \<and> id_cache_id s' = id_cache_id busy_state)"
proof -
  have c: "cleanPath sample_lib ''owncloud://host/sync/a.txt'' = Some ''/sync/a.txt''"
    by (simp add: cleanPath_def sample_lib_def)
  have v: "show_ld (1000 + time_delta (dav_session busy_state)) = ''1060''"
    by (simp add: busy_state_def init_state_def show_ld_def show_nat.simps)
  have l: "cache_live busy_state" by (simp add: cache_live_def busy_state_def)
  have b: "calls busy_state = []" "propfind_cache busy_state = Some 0"
    by (simp_all add: busy_state_def init_state_def)
  show ?thesis
    using owncloud_utimes_proppatch
            [where rep = ok_reply and s = busy_state and L = sample_lib and K = sample_errnos
               and u = "''owncloud://host/sync/a.txt''"
               and at = "\<lparr>tv_sec = 1000, tv_usec = 0\<rparr>"
               and mt = "\<lparr>tv_sec = 1000, tv_usec = 0\<rparr>"]
          owncloud_utimes_proppatch
            [where rep = locked_reply and s = busy_state and L = sample_lib
               and K = sample_errnos and u = "''owncloud://host/sync/a.txt''"
               and at = "\<lparr>tv_sec = 1000, tv_usec = 0\<rparr>"
               and mt = "\<lparr>tv_sec = 1000, tv_usec = 0\<rparr>"]
    by (simp add: c v l b ok_reply_def locked_reply_def ne_defs)
qed

text \<open>
  C7. close of a handle destroys the request. If the method of the handle is PUT, the
  listing cache, the stat cache and the ETag cache are cleared; for any other method (a
  GET handle) nothing but the destroyed request changes, so all caches are as before.
  In both cases the call returns 0.
\<close>

theorem owncloud_close_caches:
  "(tc_method h = ''PUT'' \<and> cache_live s \<longrightarrow>
      (\<exists>s'. owncloud_close (Some h) s = Some (0, s')
         \<and> calls s' = calls s @ [Request_destroy (tc_req h)]
         \<and> propfind_cache s' = None
         \<and> fs_name (stat_cache s') = None \<and> fs_md5 (stat_cache s') = None
         \<and> id_cache_uri s' = None \<and> id_cache_id s' = None))
   \<and> (tc_method h \<noteq> ''PUT'' \<longrightarrow>
        owncloud_close (Some h) s
          = Some (0, s\<lparr>calls := calls s @ [Request_destroy (tc_req h)]\<rparr>))"
proof (intro conjI impI)
  assume a: "tc_method h = ''PUT'' \<and> cache_live s"
  let ?s1 = "s\<lparr>calls := calls s @ [Request_destroy (tc_req h)]\<rparr>"
  from a have "cache_live ?s1" by (auto simp: cache_live_def split: option.splits)
  from clean_caches_Some [OF this] obtain s' where
    "clean_caches ?s1 = Some s'" "propfind_cache s' = None"
    "fs_name (stat_cache s') = None" "fs_md5 (stat_cache s') = None"
    "id_cache_uri s' = None" "id_cache_id s' = None" "calls s' = calls ?s1"
    by blast
  with a show "\<exists>s'. owncloud_close (Some h) s = Some (0, s')
         \<and> calls s' = calls s @ [Request_destroy (tc_req h)]
         \<and> propfind_cache s' = None
         \<and> fs_name (stat_cache s') = None \<and> fs_md5 (stat_cache s') = None
         \<and> id_cache_uri s' = None \<and> id_cache_id s' = None"
    by (simp add: owncloud_close_def)
next
  assume "tc_method h \<noteq> ''PUT''"
  then show "owncloud_close (Some h) s
               = Some (0, s\<lparr>calls := calls s @ [Request_destroy (tc_req h)]\<rparr>)"
    by (simp add: owncloud_close_def)
qed

text \<open>
  The theorem at concrete inputs: a PUT handle and a GET handle are closed in a session
  whose three caches are filled.
\<close>

theorem owncloud_close_caches_witness:
  "tc_method put_handle = ''PUT'' \<and> cache_live busy_state
   \<and> propfind_cache busy_state = Some 0 \<and> fs_name (stat_cache busy_state) = Some ''a.txt''
   \<and> id_cache_uri busy_state = Some ''owncloud://host/sync/b.txt''
   \<and> (\<exists>s'. owncloud_close (Some put_handle) busy_state = Some (0, s')
         \<and> calls s' = [Request_destroy (Some 1)]
         \<and> propfind_cache s' = None
         \<and> fs_name (stat_cache s') = None \<and> fs_md5 (stat_cache s') = None
         \<and> id_cache_uri s' = None \<and> id_cache_id s' = None)
   \<and> tc_method get_handle \<noteq> ''PUT''
   \<and> owncloud_close (Some get_handle) busy_state
        = Some (0, busy_state\<lparr>calls := [Request_destroy (Some 2)]\<rparr>)"
proof -
  have l: "cache_live busy_state" by (simp add: cache_live_def busy_state_def)
  have b: "calls busy_state = []" "propfind_cache busy_state = Some 0"
    "fs_name (stat_cache busy_state) = Some ''a.txt''"
    "id_cache_uri busy_state = Some ''owncloud://host/sync/b.txt''"
    by (simp_all add: busy_state_def init_state_def)
  show ?thesis
    using owncloud_close_caches [where h = put_handle and s = busy_state]
          owncloud_close_caches [where h = get_handle and s = busy_state]
    by (simp add: l b put_handle_def get_handle_def)
qed

text \<open>
  C8. When the URI can be cleaned to a non-empty path and the session is connected,
  mkdir sends MKCOL for the escaped path, with a slash appended when the path does not
  end in one. When the server answers 405, \<open>errno\<close> is EEXIST instead of what the error
  mapper gives; for every other answer \<open>errno\<close> is what \<open>set_errno_from_neon_errcode\<close>
  gives for the result of the request. The call returns -1 unless the request succeeded,
  so a second mkdir of a directory, answered with 405, fails with EEXIST.
\<close>

theorem owncloud_mkdir_mkcol:
  assumes "cleanPath L uri = Some p" and "p \<noteq> []" and "fst (dav_connect crep s) \<ge> 0"
  shows "\<exists>s'. owncloud_mkdir L K uri crep rep s
                 = Some (if sr_rc rep = NE_OK then 0 else -1, s')
           \<and> calls s' = calls s @ [Mkcol (if last p = CHR ''/'' then p else p @ ''/'')]
           \<and> (sr_code rep = 405 \<longrightarrow> errno s' = EEXIST)
           \<and> (sr_code rep \<noteq> 405 \<longrightarrow>
                errno s' = fst (set_errno_from_neon_errcode K (sr_error rep) (sr_rc rep)))"
proof -
  obtain rc s2 where c: "dav_connect crep s = (rc, s2)" by (cases "dav_connect crep s")
  with assms(3) have rc: "rc \<ge> 0" by simp
  from c dav_connect_frame(1) [of crep s] have cs: "calls s2 = calls s" by simp
  show ?thesis
    using assms(1,2) c rc cs
    by (auto simp: owncloud_mkdir_def Let_def errno_from_neon_frame NE_OK_def)
qed

text \<open>
  The theorem at concrete inputs: the directory \<open>/sync/new\<close> (no trailing slash) is
  made while the server answers 405, and while it answers 423.
\<close>

theorem owncloud_mkdir_mkcol_witness:
  "cleanPath sample_lib ''owncloud://host/sync/new'' = Some ''/sync/new'' \<and> ''/sync/new'' \<noteq> []
   \<and> fst (dav_connect connect_ok busy_state) \<ge> 0
   \<and> (\<exists>s'. owncloud_mkdir sample_lib sample_errnos ''owncloud://host/sync/new'' connect_ok
              exists_reply busy_state = Some (-1, s')
         \<and> calls s' = [Mkcol ''/sync/new/''] \<and> errno s' = EEXIST)
   \<and> (\<exists>s'. owncloud_mkdir sample_lib sample_errnos ''owncloud://host/sync/new'' connect_ok
              locked_reply busy_state = Some (-1, s')
         \<and> calls s' = [Mkcol ''/sync/new/''] \<and> errno s' = EACCES)"
proof -
  have c: "cleanPath sample_lib ''owncloud://host/sync/new'' = Some ''/sync/new''"
    by (simp add: cleanPath_def sample_lib_def)
  have d: "fst (dav_connect connect_ok busy_state) \<ge> 0"
    by (simp add: dav_connect_def busy_state_def)
  have b: "calls busy_state = []"
    by (simp add: busy_state_def init_state_def)
  have st: "strtol ''423 Locked'' = (423, '' Locked'', True)"
    by (simp add: strtol_def isspace_c_def isdigit_c_def digit_val_def LONG_MAX_def Let_def)
  have e: "fst (set_errno_from_neon_errcode sample_errnos ''423 Locked'' NE_ERROR) = EACCES"
    by (simp add: set_errno_from_neon_errcode_def set_errno_from_session_def
          http_result_code_from_session_def st int_of_long_def
          set_errno_from_http_errcode_def sample_errnos_def errno_defs ne_defs)
  show ?thesis
    using owncloud_mkdir_mkcol [OF c _ d, of sample_errnos exists_reply]
          owncloud_mkdir_mkcol [OF c _ d, of sample_errnos locked_reply]
    by (simp add: c d b e [unfolded NE_ERROR_def] exists_reply_def locked_reply_def ne_defs)
qed

text \<open>
  C9. A hit of the stat cache is decided by the base name alone: whenever the name in the
  stat cache equals the base name of U, stat returns 0 and the cached type, size, mtime
  and content id, whatever path U names and whatever the server would answer; the
  globals change in \<open>errno\<close> only, so no request is sent.
\<close>

theorem owncloud_stat_cache_hit:
  assumes "c_basename L (Some uri) = Some n" and "fs_name (stat_cache s) = Some n"
  shows "\<exists>buf'. owncloud_stat L K uri buf rep s = Some (0, buf', s\<lparr>errno := 0\<rparr>)
           \<and> fs_type buf' = fs_type (stat_cache s)
           \<and> fs_size buf' = fs_size (stat_cache s)
           \<and> fs_mtime buf' = fs_mtime (stat_cache s)
           \<and> fs_md5 buf' = fs_md5 (stat_cache s)"
  using assms
  by (simp add: owncloud_stat_def stat_from_cache_def Let_def)

text \<open>
  The theorem at a concrete input: the stat cache holds \<open>a.txt\<close> of the directory
  \<open>/sync/\<close>; stat of \<open>/other/a.txt\<close> returns the cached values and sends nothing.
\<close>

theorem owncloud_stat_cache_hit_witness:
  "c_basename sample_lib (Some ''owncloud://host/other/a.txt'') = Some ''a.txt''
   \<and> fs_name (stat_cache busy_state) = Some ''a.txt''
   \<and> res_uri res_a = Some ''/sync/a.txt''
   \<and> (\<exists>buf'. owncloud_stat sample_lib sample_errnos ''owncloud://host/other/a.txt'' zero_stat
                (multistatus []) busy_state = Some (0, buf', busy_state\<lparr>errno := 0\<rparr>)
          \<and> fs_type buf' = FILE_TYPE_REGULAR \<and> fs_size buf' = 1024 \<and> fs_mtime buf' = 940
          \<and> fs_md5 buf' = Some ''abc'')
   \<and> calls (busy_state\<lparr>errno := 0\<rparr>) = []"
proof -
  have h1: "c_basename sample_lib (Some ''owncloud://host/other/a.txt'') = Some ''a.txt''"
    by (simp add: sample_lib_def sample_basename_def)
  have h2: "fs_name (stat_cache busy_state) = Some ''a.txt''"
    by (simp add: busy_state_def)
  have c: "stat_cache busy_state =
             \<lparr>fs_name = Some ''a.txt'',
              fs_fields = {FIELDS_TYPE, FIELDS_MTIME, FIELDS_SIZE, FIELDS_MD5},
              fs_type = FILE_TYPE_REGULAR, fs_mtime = 940, fs_size = 1024,
              fs_mode = 0, fs_md5 = Some ''abc''\<rparr>"
    "calls busy_state = []"
    by (simp_all add: busy_state_def init_state_def)
  show ?thesis
    using owncloud_stat_cache_hit [OF h1 h2, of sample_errnos zero_stat "multistatus []"]
    by (simp add: h1 c res_a_def)
qed

text \<open>
  C10. Let the PROPFIND of stat be sent and succeed (the stat cache does not hold the
  base name, the listing cache does not answer, the server's answer passes the checks).
  If no entry of the answer has a path that matches the decoded target after its
  trailing slashes are stripped, stat returns 0 (it does not fail), and the caller's
  buffer is as it was but for the name: no type, size or mtime is written.
\<close>

theorem owncloud_stat_no_match:
  assumes "c_basename L (Some uri) = Some n"
    and "fs_name (stat_cache s) \<noteq> Some n"
    and "cache_live s" and "\<not> listing_cached L uri s" and "cleanPath L uri = Some t"
    and "ne_path_unescape L t = Some d"
    and "pf_ret rep = NE_OK" and "klass (pf_status rep) = 2"
    and "pf_content_type rep = Some ''application/xml; charset=utf-8''"
    and "pf_date rep = Some dh"
    and "\<forall>r \<in> set (pf_results rep).
           \<exists>u. ne_path_unescape L (pr_path r) = Some u \<and> \<not> uri_matches u d"
  shows "\<exists>s'. owncloud_stat L K uri buf rep s = Some (0, buf\<lparr>fs_name := Some n\<rparr>, s')
           \<and> calls s' = calls s @ [Propfind (Some t) NE_DEPTH_ONE]"
proof -
  have "cache_live (s\<lparr>errno := 0\<rparr>)" "\<not> listing_cached L uri (s\<lparr>errno := 0\<rparr>)"
    using assms(3,4) by (auto simp: cache_live_def listing_cached_def split: option.splits)
  from fetch_resource_list_fresh [OF this assms(5) assms(7-10), of K NE_DEPTH_ONE]
  obtain a s1 ctx where
    f: "fetch_resource_list L K uri NE_DEPTH_ONE rep (s\<lparr>errno := 0\<rparr>) = Some (Some a, s1)"
      "heap s1 a = Some ctx" "target ctx = Some t"
      "ctx_list ctx = rev (map (new_resource L) (pf_results rep))"
      "errno s1 = errno (s\<lparr>errno := 0\<rparr>)"
      "calls s1 = calls (s\<lparr>errno := 0\<rparr>) @ [Propfind (Some t) NE_DEPTH_ONE]"
    by blast
  have "\<forall>res \<in> set (ctx_list ctx). \<exists>u. res_uri res = Some u \<and> \<not> uri_matches u d"
    using assms(11) f(4) by (auto simp: new_resource_def Let_def)
  from stat_find_none [OF this]
  have sf: "stat_find (case target ctx of None \<Rightarrow> None | Some t \<Rightarrow> ne_path_unescape L t)
              (ctx_list ctx) = Some None"
    using f(3) assms(6) by simp
  from owncloud_stat_not_found [OF assms(1,2) f(1,2) sf, of buf] f(5,6)
  show ?thesis by auto
qed

text \<open>
  The theorem at a concrete input: stat of \<open>/sync/c.txt\<close>, while the server lists
  \<open>/sync/\<close> and \<open>/sync/b.txt\<close> only.
\<close>

theorem owncloud_stat_no_match_witness:
  "c_basename sample_lib (Some ''owncloud://host/sync/c.txt'') = Some ''c.txt''
   \<and> fs_name (stat_cache busy_state) \<noteq> Some ''c.txt''
   \<and> cache_live busy_state
   \<and> \<not> listing_cached sample_lib ''owncloud://host/sync/c.txt'' busy_state
   \<and> cleanPath sample_lib ''owncloud://host/sync/c.txt'' = Some ''/sync/c.txt''
   \<and> ne_path_unescape sample_lib ''/sync/c.txt'' = Some ''/sync/c.txt''
   \<and> pf_ret (multistatus [entry_sync, entry_b]) = NE_OK
   \<and> klass (pf_status (multistatus [entry_sync, entry_b])) = 2
   \<and> pf_content_type (multistatus [entry_sync, entry_b]) = Some ''application/xml; charset=utf-8''
   \<and> pf_date (multistatus [entry_sync, entry_b]) = Some ''Sun, 06 Nov 1994 08:49:37 GMT''
   \<and> (\<exists>u. ne_path_unescape sample_lib (pr_path entry_sync) = Some u
            \<and> \<not> uri_matches u ''/sync/c.txt'')
   \<and> (\<exists>u. ne_path_unescape sample_lib (pr_path entry_b) = Some u
            \<and> \<not> uri_matches u ''/sync/c.txt'')
   \<and> (\<exists>s'. owncloud_stat sample_lib sample_errnos ''owncloud://host/sync/c.txt'' zero_stat
              (multistatus [entry_sync, entry_b]) busy_state
                = Some (0, zero_stat\<lparr>fs_name := Some ''c.txt''\<rparr>, s')
          \<and> calls s' = [Propfind (Some ''/sync/c.txt'') 1])"
proof -
  have h1: "c_basename sample_lib (Some ''owncloud://host/sync/c.txt'') = Some ''c.txt''"
    by (simp add: sample_lib_def sample_basename_def)
  have h2: "fs_name (stat_cache busy_state) \<noteq> Some ''c.txt''"
    by (simp add: busy_state_def)
  have h3: "cache_live busy_state"
    by (simp add: cache_live_def busy_state_def)
  have h5: "cleanPath sample_lib ''owncloud://host/sync/c.txt'' = Some ''/sync/c.txt''"
    by (simp add: cleanPath_def sample_lib_def)
  have h4: "\<not> listing_cached sample_lib ''owncloud://host/sync/c.txt'' busy_state"
    by (simp add: listing_cached_def h5 busy_state_def sync_listing_def c_streq_def)
  have h6: "ne_path_unescape sample_lib ''/sync/c.txt'' = Some ''/sync/c.txt''"
    by (simp add: sample_lib_def)
  have h7: "pf_ret (multistatus [entry_sync, entry_b]) = NE_OK"
    and h8: "klass (pf_status (multistatus [entry_sync, entry_b])) = 2"
    and h9: "pf_content_type (multistatus [entry_sync, entry_b])
               = Some ''application/xml; charset=utf-8''"
    and h10: "pf_date (multistatus [entry_sync, entry_b]) = Some ''Sun, 06 Nov 1994 08:49:37 GMT''"
    by (simp_all add: multistatus_def)
  have m1: "\<exists>u. ne_path_unescape sample_lib (pr_path entry_sync) = Some u
              \<and> \<not> uri_matches u ''/sync/c.txt''"
    by (simp add: sample_lib_def entry_sync_def uri_matches_def strip_len_def char_at_def)
  have m2: "\<exists>u. ne_path_unescape sample_lib (pr_path entry_b) = Some u
              \<and> \<not> uri_matches u ''/sync/c.txt''"
    by (simp add: sample_lib_def entry_b_def uri_matches_def strip_len_def char_at_def)
  have h11: "\<forall>r \<in> set (pf_results (multistatus [entry_sync, entry_b])).
               \<exists>u. ne_path_unescape sample_lib (pr_path r) = Some u
                 \<and> \<not> uri_matches u ''/sync/c.txt''"
    using m1 m2 by (simp add: multistatus_def)
  have b: "calls busy_state = []"
    by (simp add: busy_state_def init_state_def)
  from owncloud_stat_no_match [OF h1 h2 h3 h4 h5 h6 h7 h8 h9 h10 h11, of sample_errnos zero_stat]
  have "\<exists>s'. owncloud_stat sample_lib sample_errnos ''owncloud://host/sync/c.txt'' zero_stat
              (multistatus [entry_sync, entry_b]) busy_state
                = Some (0, zero_stat\<lparr>fs_name := Some ''c.txt''\<rparr>, s')
          \<and> calls s' = [Propfind (Some ''/sync/c.txt'') 1]"
    by (simp add: b NE_DEPTH_ONE_def)
  with h1 h2 h3 h4 h5 h6 h7 h8 h9 h10 m1 m2 show ?thesis by blast
qed

end
